theory Spec2Isabelle
  imports Complex_Main
begin

section \<open>JavaScript regular expressions, as far as the sources use them\<close>

text \<open>
  The sources match bodies with JavaScript regular expressions. Every quantifier in them
  applies to a single character class, and every alternation is either between literals or
  at the top level of the expression, so a pattern is a list of atoms and an expression is a
  list of alternative patterns. Strings are lists of 8-bit characters: the model covers
  bodies whose UTF-16 code units are below 256.

  \<open>Dot\<close> is \<open>.\<close> without the \<open>s\<close> flag (no line terminator), \<open>AnyChar\<close> is \<open>.\<close> with it
  (and \<open>[\s\S]\<close>); \<open>Space\<close>/\<open>NonSpace\<close> are \<open>\s\<close>/\<open>\S\<close>.
\<close>

datatype cclass = Dot | AnyChar | Space | NonSpace | Digit | OneOf string | NoneOf string

definition line_terminator :: "char \<Rightarrow> bool" where
  "line_terminator c = (c = CHR 0x0A \<or> c = CHR 0x0D)"

definition white_space :: "char \<Rightarrow> bool" where
  "white_space c =
     (c \<in> set [CHR 0x09, CHR 0x0A, CHR 0x0B, CHR 0x0C, CHR 0x0D, CHR 0x20, CHR 0xA0])"

fun cmatch :: "cclass \<Rightarrow> char \<Rightarrow> bool" where
  "cmatch Dot c = (\<not> line_terminator c)"
| "cmatch AnyChar c = True"
| "cmatch Space c = white_space c"
| "cmatch NonSpace c = (\<not> white_space c)"
| "cmatch Digit c = (c \<in> set ''0123456789'')"
| "cmatch (OneOf cs) c = (c \<in> set cs)"
| "cmatch (NoneOf cs) c = (c \<notin> set cs)"

datatype atom =
    Lit string
  | One cclass
  | Star cclass
  | StarLazy cclass
  | Plus cclass
  | PlusLazy cclass
  | Opt cclass
  | AltLit "string list"
  | Open nat
  | Close nat

type_synonym pattern = "atom list"
type_synonym regex = "pattern list"
type_synonym caps = "(nat \<times> string) list"

text \<open>\<open>String.prototype.startsWith\<close>: \<open>starts_with p s\<close> is \<open>s.startsWith(p)\<close>.\<close>

fun starts_with :: "string \<Rightarrow> string \<Rightarrow> bool" where
  "starts_with [] s = True"
| "starts_with (p # ps) [] = False"
| "starts_with (p # ps) (c # cs) = (p = c \<and> starts_with ps cs)"

fun asize :: "atom \<Rightarrow> nat" where
  "asize (Plus k) = 2"
| "asize (PlusLazy k) = 2"
| "asize (AltLit ls) = Suc (length ls)"
| "asize a = 1"

text \<open>
  The backtracking matcher, anchored at the head of the input. It returns the first match in
  the engine's priority order (a greedy quantifier tries to take a character before it tries
  to stop, a lazy one the other way round; alternatives from left to right): the unmatched
  rest of the input and the captured groups. \<open>ops\<close> remembers the input at each opened
  group.
\<close>

function (sequential) bt :: "pattern \<Rightarrow> string \<Rightarrow> caps \<Rightarrow> caps \<Rightarrow> (string \<times> caps) option" where
  "bt [] s ops cs = Some (s, cs)"
| "bt (Lit l # r) s ops cs =
     (if starts_with l s then bt r (drop (length l) s) ops cs else None)"
| "bt (One k # r) [] ops cs = None"
| "bt (One k # r) (x # xs) ops cs = (if cmatch k x then bt r xs ops cs else None)"
| "bt (Star k # r) [] ops cs = bt r [] ops cs"
| "bt (Star k # r) (x # xs) ops cs =
     (if cmatch k x
      then (case bt (Star k # r) xs ops cs of
              Some m \<Rightarrow> Some m
            | None \<Rightarrow> bt r (x # xs) ops cs)
      else bt r (x # xs) ops cs)"
| "bt (StarLazy k # r) [] ops cs = bt r [] ops cs"
| "bt (StarLazy k # r) (x # xs) ops cs =
     (case bt r (x # xs) ops cs of
        Some m \<Rightarrow> Some m
      | None \<Rightarrow> (if cmatch k x then bt (StarLazy k # r) xs ops cs else None))"
| "bt (Plus k # r) [] ops cs = None"
| "bt (Plus k # r) (x # xs) ops cs =
     (if cmatch k x then bt (Star k # r) xs ops cs else None)"
| "bt (PlusLazy k # r) [] ops cs = None"
| "bt (PlusLazy k # r) (x # xs) ops cs =
     (if cmatch k x then bt (StarLazy k # r) xs ops cs else None)"
| "bt (Opt k # r) [] ops cs = bt r [] ops cs"
| "bt (Opt k # r) (x # xs) ops cs =
     (if cmatch k x
      then (case bt r xs ops cs of
              Some m \<Rightarrow> Some m
            | None \<Rightarrow> bt r (x # xs) ops cs)
      else bt r (x # xs) ops cs)"
| "bt (AltLit [] # r) s ops cs = None"
| "bt (AltLit (l # ls) # r) s ops cs =
     (if starts_with l s
      then (case bt r (drop (length l) s) ops cs of
              Some m \<Rightarrow> Some m
            | None \<Rightarrow> bt (AltLit ls # r) s ops cs)
      else bt (AltLit ls # r) s ops cs)"
| "bt (Open n # r) s ops cs = bt r s ((n, s) # ops) cs"
| "bt (Close n # r) s ops cs =
     (case map_of ops n of
        None \<Rightarrow> bt r s ops cs
      | Some s0 \<Rightarrow> bt r s ops ((n, take (length s0 - length s) s0) # cs))"
  by pat_completeness auto
termination
  by (relation "inv_image (less_than <*lex*> less_than)
                  (\<lambda>(p, s, ops, cs). (sum_list (map asize p), length s))") auto

text \<open>The alternatives of an expression are tried from left to right at one position.\<close>

fun alts :: "regex \<Rightarrow> string \<Rightarrow> (string \<times> caps) option" where
  "alts [] s = None"
| "alts (p # ps) s = (case bt p s [] [] of Some m \<Rightarrow> Some m | None \<Rightarrow> alts ps s)"

text \<open>
  The leftmost match: the number of characters before it, the rest of the input after it,
  and the groups. This is \<open>RegExp.prototype.exec\<close> from index 0.
\<close>

fun search :: "regex \<Rightarrow> string \<Rightarrow> (nat \<times> string \<times> caps) option" where
  "search re [] = (case alts re [] of Some (rest, cs) \<Rightarrow> Some (0, rest, cs) | None \<Rightarrow> None)"
| "search re (x # xs) =
     (case alts re (x # xs) of
        Some (rest, cs) \<Rightarrow> Some (0, rest, cs)
      | None \<Rightarrow> (case search re xs of
                   Some (k, rest, cs) \<Rightarrow> Some (Suc k, rest, cs)
                 | None \<Rightarrow> None))"

text \<open>\<open>!!s.match(re)\<close> for an expression without the \<open>g\<close> flag.\<close>

definition matches :: "regex \<Rightarrow> string \<Rightarrow> bool" where
  "matches re s = (search re s \<noteq> None)"

text \<open>Group \<open>n\<close> of a match; \<open>None\<close> is \<open>undefined\<close> (the group took no part).\<close>

definition group :: "caps \<Rightarrow> nat \<Rightarrow> string option" where
  "group cs n = map_of cs n"

section \<open>Responses and errors\<close>

text \<open>
  What a predicate written as an \<open>&&\<close> chain hands back: \<open>true\<close>, \<open>false\<close>, or the
  \<open>undefined\<close> that optional chaining yields on a missing header.
\<close>

datatype jsval = JTrue | JFalse | JUndefined

definition jbool :: "bool \<Rightarrow> jsval" where
  "jbool b = (if b then JTrue else JFalse)"

definition truthy :: "jsval \<Rightarrow> bool" where
  "truthy v = (v = JTrue)"

datatype error =
    TypeError
  | Error string
  | CloudflareLoopProtection int
  | CloudflareIUAMError
  | CloudflareSolveError
  | CloudflareChallengeError
  | CloudflareCode1020
  | TransportError string

text \<open>A header value: a string, or an array (as the transport delivers repeated headers).\<close>

datatype hval = HStr string | HList "string list"

text \<open>
  The response body: a string, a non-string value with the string its \<open>toString()\<close>
  gives (a buffer, an object), or \<open>null\<close>/\<open>undefined\<close>.
\<close>

datatype body = Str string | Obj string | Nullish

record config =
  c_method :: "string option"
  c_url :: "string option"
  c_headers :: "string \<rightharpoonup> string"
  c_data :: "(string \<rightharpoonup> string) option"
  c_proxy :: "string option"
  c_maxRedirects :: "int option"
  c_validateAll :: bool

record response =
  status :: int
  headers :: "string \<rightharpoonup> hval"
  data :: body
  config :: config

text \<open>\<open>try { ... } catch (error) { ... }\<close>\<close>

definition catch :: "error + 'a \<Rightarrow> (error \<Rightarrow> error + 'a) \<Rightarrow> error + 'a" where
  "catch b h = (case b of Inl e \<Rightarrow> h e | Inr v \<Rightarrow> Inr v)"

text \<open>\<open>typeof resp.data === 'string' ? resp.data : resp.data.toString()\<close>\<close>

definition responseData :: "response \<Rightarrow> error + string" where
  "responseData resp =
     (case data resp of Str s \<Rightarrow> Inr s | Obj s \<Rightarrow> Inr s | Nullish \<Rightarrow> Inl TypeError)"

text \<open>\<open>resp.headers['server']?.startsWith('cloudflare')\<close>\<close>

definition server_startsWith_cloudflare :: "response \<Rightarrow> error + jsval" where
  "server_startsWith_cloudflare resp =
     (case headers resp ''server'' of
        None \<Rightarrow> Inr JUndefined
      | Some (HStr s) \<Rightarrow> Inr (jbool (starts_with ''cloudflare'' s))
      | Some (HList l) \<Rightarrow> Inl TypeError)"

text \<open>\<open>a && b\<close>, for a right operand that neither throws nor has an effect.\<close>

definition js_and :: "jsval \<Rightarrow> jsval \<Rightarrow> jsval" where
  "js_and a b = (if truthy a then b else a)"

section \<open>Challenge detection (class Cloudflare)\<close>

definition rx_trace_jsch :: regex where
  "rx_trace_jsch = [[Lit ''/cdn-cgi/images/trace/jsch/'']]"

definition rx_trace_captcha :: regex where
  "rx_trace_captcha =
     [[Lit ''/cdn-cgi/images/trace/'', AltLit [''captcha'', ''managed''], Lit ''/'']]"

definition rx_challenge_form :: regex where
  "rx_challenge_form =
     [[Lit ''<form '', StarLazy Dot, Lit ''=\"challenge-form\" action=\"/'',
       Plus NonSpace, Lit ''__cf_chl_f_tk='']]"

definition rx_orchestrate_jsch :: regex where
  "rx_orchestrate_jsch =
     [[Lit ''cpo.src'', Star Space, Lit ''='', Star Space, One (OneOf [CHR 0x27, CHR 0x22]),
       Lit ''/cdn-cgi/challenge-platform/'', Plus NonSpace, Lit ''orchestrate/jsch/v1'']]"

definition rx_orchestrate_captcha :: regex where
  "rx_orchestrate_captcha =
     [[Lit ''cpo.src'', Star Space, Lit ''='', Star Space, One (OneOf [CHR 0x27, CHR 0x22]),
       Lit ''/cdn-cgi/challenge-platform/'', Plus NonSpace, Lit ''orchestrate/'',
       AltLit [''captcha'', ''managed''], Lit ''/v1'']]"

definition rx_error_1020 :: regex where
  "rx_error_1020 = [[Lit ''<span class=\"cf-error-code\">1020</span>'']]"

definition isIUAMChallenge :: "response \<Rightarrow> error + jsval" where
  "isIUAMChallenge resp =
     catch
       (case responseData resp of
          Inl e \<Rightarrow> Inl e
        | Inr txt \<Rightarrow>
            (case server_startsWith_cloudflare resp of
               Inl e \<Rightarrow> Inl e
             | Inr srv \<Rightarrow>
                 Inr (js_and srv
                       (js_and (jbool (status resp \<in> set [429, 503]))
                         (js_and (jbool (matches rx_trace_jsch txt))
                                 (jbool (matches rx_challenge_form txt)))))))
       (\<lambda>e. Inr JFalse)"

definition isCaptchaChallenge :: "response \<Rightarrow> error + jsval" where
  "isCaptchaChallenge resp =
     catch
       (case responseData resp of
          Inl e \<Rightarrow> Inl e
        | Inr txt \<Rightarrow>
            (case server_startsWith_cloudflare resp of
               Inl e \<Rightarrow> Inl e
             | Inr srv \<Rightarrow>
                 Inr (js_and srv
                       (js_and (jbool (status resp = 403))
                         (js_and (jbool (matches rx_trace_captcha txt))
                                 (jbool (matches rx_challenge_form txt)))))))
       (\<lambda>e. Inr JFalse)"

definition isFirewallBlocked :: "response \<Rightarrow> error + jsval" where
  "isFirewallBlocked resp =
     catch
       (case responseData resp of
          Inl e \<Rightarrow> Inl e
        | Inr txt \<Rightarrow>
            (case server_startsWith_cloudflare resp of
               Inl e \<Rightarrow> Inl e
             | Inr srv \<Rightarrow>
                 Inr (js_and srv
                       (js_and (jbool (status resp = 403))
                               (jbool (matches rx_error_1020 txt))))))
       (\<lambda>e. Inr JFalse)"

text \<open>
  The two instance predicates evaluate \<open>resp.data.toString()\<close> only when the static
  predicate was truthy (\<open>&&\<close> cuts the chain short).
\<close>

definition isNewIUAMChallenge :: "response \<Rightarrow> error + jsval" where
  "isNewIUAMChallenge resp =
     catch
       (case isIUAMChallenge resp of
          Inl e \<Rightarrow> Inl e
        | Inr v \<Rightarrow>
            if truthy v
            then (case responseData resp of
                    Inl e \<Rightarrow> Inl e
                  | Inr txt \<Rightarrow> Inr (jbool (matches rx_orchestrate_jsch txt)))
            else Inr v)
       (\<lambda>e. Inr JFalse)"

definition isNewCaptchaChallenge :: "response \<Rightarrow> error + jsval" where
  "isNewCaptchaChallenge resp =
     catch
       (case isCaptchaChallenge resp of
          Inl e \<Rightarrow> Inl e
        | Inr v \<Rightarrow>
            if truthy v
            then (case responseData resp of
                    Inl e \<Rightarrow> Inl e
                  | Inr txt \<Rightarrow> Inr (jbool (matches rx_orchestrate_captcha txt)))
            else Inr v)
       (\<lambda>e. Inr JFalse)"

text \<open>\<open>if (p(resp))\<close> on a predicate that may throw.\<close>

definition holds :: "error + jsval \<Rightarrow> error + bool" where
  "holds r = (case r of Inl e \<Rightarrow> Inl e | Inr v \<Rightarrow> Inr (truthy v))"

definition isChallengeRequest :: "response \<Rightarrow> error + bool" where
  "isChallengeRequest resp =
     (case holds (isFirewallBlocked resp) of
        Inl e \<Rightarrow> Inl e
      | Inr True \<Rightarrow> Inl CloudflareCode1020
      | Inr False \<Rightarrow>
     (case holds (isNewCaptchaChallenge resp) of
        Inl e \<Rightarrow> Inl e
      | Inr True \<Rightarrow> Inl CloudflareChallengeError
      | Inr False \<Rightarrow>
     (case holds (isNewIUAMChallenge resp) of
        Inl e \<Rightarrow> Inl e
      | Inr True \<Rightarrow> Inl CloudflareChallengeError
      | Inr False \<Rightarrow>
     (case holds (isCaptchaChallenge resp) of
        Inl e \<Rightarrow> Inl e
      | Inr True \<Rightarrow> Inr True
      | Inr False \<Rightarrow>
     (case holds (isIUAMChallenge resp) of
        Inl e \<Rightarrow> Inl e
      | Inr True \<Rightarrow> Inr True
      | Inr False \<Rightarrow> Inr False)))))"

section \<open>The challenge resolver (class Cloudflare)\<close>

text \<open>\<open>s.replace(/p/g, r)\<close> for a literal, non-empty \<open>p\<close>.\<close>

fun replace_all :: "string \<Rightarrow> string \<Rightarrow> string \<Rightarrow> string" where
  "replace_all [] r s = s"
| "replace_all (p # ps) r [] = []"
| "replace_all (p # ps) r (c # cs) =
     (if starts_with (p # ps) (c # cs)
      then r @ replace_all (p # ps) r (drop (length ps) cs)
      else c # replace_all (p # ps) r cs)"

definition unescape :: "string \<Rightarrow> string" where
  "unescape htmlText =
     replace_all ''&amp;'' ''&''
       (replace_all ''&#039;'' [CHR 0x27]
         (replace_all ''&quot;'' [CHR 0x22]
           (replace_all ''&gt;'' ''>''
             (replace_all ''&lt;'' ''<'' htmlText))))"

subsection \<open>The evaluators and their factory\<close>

datatype interpreter =
    Js2PyInterpreter
  | NodeJsInterpreter
  | V8Interpreter
  | ChakraCoreInterpreter
  | NativeInterpreter

text \<open>\<open>String.prototype.toLowerCase\<close> on the ASCII letters.\<close>

definition lower_char :: "char \<Rightarrow> char" where
  "lower_char c =
     (if (65::nat) \<le> of_char c \<and> of_char c \<le> (90::nat)
      then char_of (of_char c + (32::nat)) else c)"

definition toLowerCase :: "string \<Rightarrow> string" where
  "toLowerCase s = map lower_char s"

definition createInterpreter :: "string \<Rightarrow> interpreter" where
  "createInterpreter interpreterName =
     (let n = toLowerCase interpreterName in
      if n = ''js2py'' then Js2PyInterpreter
      else if n = ''nodejs'' then NodeJsInterpreter
      else if n = ''v8'' then V8Interpreter
      else if n = ''chakracore'' then ChakraCoreInterpreter
      else NativeInterpreter)"

text \<open>
  \<open>solveChallenge(body, domain)\<close> of each evaluator class. The four stub classes warn on the
  console and return the string \<open>'0'\<close>. \<open>NativeInterpreter\<close> extracts the page's script and
  runs it in the host engine (\<open>new Function\<close>); that run is a capability of the host,
  taken as the parameter \<open>native\<close>.
\<close>

fun solveChallenge ::
  "(string \<Rightarrow> string \<Rightarrow> error + string) \<Rightarrow> interpreter \<Rightarrow> string \<Rightarrow> string \<Rightarrow> error + string"
where
  "solveChallenge native Js2PyInterpreter body domain = Inr ''0''"
| "solveChallenge native NodeJsInterpreter body domain = Inr ''0''"
| "solveChallenge native V8Interpreter body domain = Inr ''0''"
| "solveChallenge native ChakraCoreInterpreter body domain = Inr ''0''"
| "solveChallenge native NativeInterpreter body domain = native body domain"

subsection \<open>Form extraction and the submission URL\<close>

text \<open>What \<open>new URL(u)\<close> gives, as far as the sources read it.\<close>

record url =
  protocol :: string
  hostname :: string
  href :: string

record ChallengeResponse =
  cr_url :: string
  cr_data :: "string \<rightharpoonup> string"

text \<open>
  \<open>new RegExp('<form (.*?="challenge-form" action="(.*?__cf_chl_f_tk=\\S+)"(.*?)</form>)', 's')\<close>
\<close>

definition formRegex :: regex where
  "formRegex =
     [[Lit ''<form '', Open 1, StarLazy AnyChar, Lit ''=\"challenge-form\" action=\"'',
       Open 2, StarLazy AnyChar, Lit ''__cf_chl_f_tk='', Plus NonSpace, Close 2,
       Lit ''\"'', Open 3, StarLazy AnyChar, Close 3, Lit ''</form>'', Close 1]]"

text \<open>\<open>/<input\s(.*?)\/?>|<input(.*?)>/g\<close>\<close>

definition inputRegex :: regex where
  "inputRegex =
     [[Lit ''<input'', One Space, Open 1, StarLazy Dot, Close 1, Opt (OneOf ''/''), Lit ''>''],
      [Lit ''<input'', Open 2, StarLazy Dot, Close 2, Lit ''>'']]"

definition nameRegex :: regex where
  "nameRegex = [[Lit ''name=\"'', Open 1, Plus (NoneOf ''\"''), Close 1, Lit ''\"'']]"

definition valueRegex :: regex where
  "valueRegex = [[Lit ''value=\"'', Open 1, Plus (NoneOf ''\"''), Close 1, Lit ''\"'']]"

text \<open>\<open>a || b\<close> on two groups: the first unless it is \<open>undefined\<close> or empty.\<close>

definition or_group :: "string option \<Rightarrow> string option \<Rightarrow> string option" where
  "or_group a b = (case a of Some (x # xs) \<Rightarrow> Some (x # xs) | _ \<Rightarrow> b)"

text \<open>Group 1 of the first match of \<open>re\<close> in \<open>s\<close>; \<open>None\<close> when there is no match.\<close>

definition match1 :: "regex \<Rightarrow> string \<Rightarrow> string option" where
  "match1 re s = (case search re s of None \<Rightarrow> None | Some (k, rest, cs) \<Rightarrow> group cs 1)"

text \<open>The body of the \<open>while\<close> loop over the inputs, for one match of \<open>inputRegex\<close>.\<close>

definition input_step :: "caps \<Rightarrow> (string \<rightharpoonup> string) \<Rightarrow> (string \<rightharpoonup> string)" where
  "input_step cs payload =
     (case or_group (group cs 1) (group cs 2) of
        None \<Rightarrow> payload
      | Some [] \<Rightarrow> payload
      | Some input \<Rightarrow>
          (case (match1 nameRegex input, match1 valueRegex input) of
             (Some name, Some val) \<Rightarrow>
               if name \<in> set [''r'', ''jschl_vc'', ''pass'']
               then payload(name \<mapsto> val) else payload
           | _ \<Rightarrow> payload))"

text \<open>
  \<open>while ((inputMatch = inputRegex.exec(form)) !== null)\<close>: each search starts where the
  match before it ended. \<open>None\<close> stands for a loop that does not end.
\<close>

partial_function (option) input_loop :: "string \<Rightarrow> (string \<rightharpoonup> string) \<Rightarrow> (string \<rightharpoonup> string) option" where
  "input_loop form payload =
     (case search inputRegex form of
        None \<Rightarrow> Some payload
      | Some (k, rest, cs) \<Rightarrow> input_loop rest (input_step cs payload))"

declare input_loop.simps [code]

text \<open>
  The collaborators of one client: the transport, the clock, the URL parser of the host, the
  host's script engine, the stealth decorator, the user agent and the hooks.
\<close>

datatype call = Dispatch "string option" string config | Probe string

record world =
  transport :: "nat \<Rightarrow> call \<Rightarrow> error + response"
  clock :: "nat \<Rightarrow> int"
  url_parse :: "string \<Rightarrow> url option"
  url_resolve :: "string \<Rightarrow> string \<Rightarrow> string option"
  native :: "string \<Rightarrow> string \<Rightarrow> error + string"
  applyStealthTechniques :: "nat \<Rightarrow> string option \<Rightarrow> string \<Rightarrow> config \<Rightarrow> config"
  requestPreHook ::
    "(string option \<Rightarrow> string \<Rightarrow> config \<Rightarrow> error + (string option \<times> string \<times> config)) option"
  requestPostHook :: "(response \<Rightarrow> error + response option) option"
  getUserAgent :: "nat \<Rightarrow> string"

text \<open>
  \<open>iuamChallengeResponse(body, url, interpreter)\<close>. Every error raised inside is rethrown as a
  \<open>CloudflareIUAMError\<close>. The test \<open>formMatch.length < 3\<close> is never true of a match (the
  expression has three groups), and groups 1 and 2 take part in every match.
\<close>

definition iuamChallengeResponse ::
  "world \<Rightarrow> string \<Rightarrow> string \<Rightarrow> string \<Rightarrow> (error + ChallengeResponse) option"
where
  "iuamChallengeResponse w body u interp =
     (case search formRegex body of
        None \<Rightarrow> Some (Inl CloudflareIUAMError)
      | Some (k, rest, cs) \<Rightarrow>
          (case (group cs 1, group cs 2) of
             (Some form, Some challengeUUID) \<Rightarrow>
               (case input_loop form Map.empty of
                  None \<Rightarrow> None
                | Some payload \<Rightarrow>
                    (case url_parse w u of
                       None \<Rightarrow> Some (Inl CloudflareIUAMError)
                     | Some parsedUrl \<Rightarrow>
                         (case solveChallenge (native w) (createInterpreter interp) body
                                 (hostname parsedUrl) of
                            Inl e \<Rightarrow> Some (Inl CloudflareIUAMError)
                          | Inr answer \<Rightarrow>
                              Some (Inr \<lparr>cr_url = protocol parsedUrl @ ''//'' @ hostname parsedUrl
                                                  @ unescape challengeUUID,
                                         cr_data = payload(''jschl_answer'' \<mapsto> answer)\<rparr>))))
           | _ \<Rightarrow> Some (Inl CloudflareIUAMError)))"

section \<open>The request orchestrator (class CloudScraper)\<close>

text \<open>
  The fields of a client that the orchestrator reads or writes, and two records of its
  dealings with the world: the transport calls made so far and the number of clock reads.
  Numbers are integers (counters and millisecond timestamps); \<open>delay\<close> is in seconds.

  Left out: the TLS cipher rotation and the user-agent reload (they change the cipher list,
  its rotation counter and the transport's agent, which the orchestrator never reads back),
  the proxy manager's bookkeeping, the debug output, and the removal of cookies before a
  refresh (the cookie store belongs to the transport). Brotli decoding is part of what the
  transport returns.
\<close>

record scraper =
  disableCloudflareV1 :: bool
  delay :: "rat option"
  captcha_provider :: "string option"
  doubleDown :: bool
  interpreter :: string
  solveDepthCnt :: int
  solveDepth :: int
  sessionStartTime :: int
  requestCount :: int
  last403Time :: int
  sessionRefreshInterval :: int
  autoRefreshOn403 :: bool
  max403Retries :: int
  retryCount403 :: int
  in403RetryFlag :: bool
  lastRequestTime :: int
  maxConcurrentRequests :: int
  currentConcurrentRequests :: int
  enableStealth :: bool
  calls :: "call list"
  ticks :: nat

text \<open>How an asynchronous method ends: it returns or throws, in a new state of the client.
  \<open>None\<close> is a call that has not ended within the fuel given.\<close>

type_synonym 'a outcome = "((error + 'a) \<times> scraper) option"

type_synonym requester = "string option \<Rightarrow> string \<Rightarrow> config \<Rightarrow> scraper \<Rightarrow> response outcome"

text \<open>\<open>Date.now()\<close>\<close>

definition now :: "world \<Rightarrow> scraper \<Rightarrow> int \<times> scraper" where
  "now w st = (clock w (ticks st), st\<lparr>ticks := Suc (ticks st)\<rparr>)"

text \<open>\<open>if (this.currentConcurrentRequests > 0) this.currentConcurrentRequests--\<close>\<close>

definition release :: "scraper \<Rightarrow> scraper" where
  "release st =
     (if currentConcurrentRequests st > 0
      then st\<lparr>currentConcurrentRequests := currentConcurrentRequests st - 1\<rparr> else st)"

text \<open>
  The polling loop of the throttle: \<open>while (current >= max) await sleep(100)\<close>. Nothing
  else runs between two polls of one logical request, so the state is the same at each.
\<close>

primrec throttle_wait :: "nat \<Rightarrow> scraper \<Rightarrow> scraper option" where
  "throttle_wait 0 st = None"
| "throttle_wait (Suc n) st =
     (if currentConcurrentRequests st \<ge> maxConcurrentRequests st
      then throttle_wait n st else Some st)"

text \<open>The sleep that spaces two requests changes no field.\<close>

definition applyRequestThrottling :: "world \<Rightarrow> nat \<Rightarrow> scraper \<Rightarrow> scraper option" where
  "applyRequestThrottling w fuel st =
     (case now w st of (currentTime, st1) \<Rightarrow>
      case throttle_wait fuel st1 of
        None \<Rightarrow> None
      | Some st2 \<Rightarrow> (case now w st2 of (t, st3) \<Rightarrow> Some (st3\<lparr>lastRequestTime := t\<rparr>)))"

definition shouldRefreshSession :: "world \<Rightarrow> scraper \<Rightarrow> bool \<times> scraper" where
  "shouldRefreshSession w st =
     (case now w st of (currentTime, st1) \<Rightarrow>
      (if currentTime - sessionStartTime st1 > sessionRefreshInterval st1 * 1000 then True
       else if last403Time st1 > 0 \<and> currentTime - last403Time st1 < 60000 then True
       else False, st1))"

text \<open>The probe of a refresh goes through the same transport and is recorded as a call.\<close>

definition refreshSession :: "world \<Rightarrow> string \<Rightarrow> scraper \<Rightarrow> bool \<times> scraper" where
  "refreshSession w u st =
     (case now w st of (t, st1) \<Rightarrow>
      let st2 = st1\<lparr>sessionStartTime := t, requestCount := 0\<rparr> in
      case url_parse w u of
        None \<Rightarrow> (False, st2)
      | Some parsedUrl \<Rightarrow>
          let baseUrl = protocol parsedUrl @ ''//'' @ hostname parsedUrl;
              st3 = st2\<lparr>calls := calls st2 @ [Probe baseUrl]\<rparr>
          in case transport w (length (calls st2)) (Probe baseUrl) of
               Inl e \<Rightarrow> (False, st3)
             | Inr testResponse \<Rightarrow> (status testResponse \<in> set [200, 301, 302, 304], st3))"

definition performRequest ::
  "world \<Rightarrow> string option \<Rightarrow> string \<Rightarrow> config \<Rightarrow> scraper \<Rightarrow> (error + response) \<times> scraper"
where
  "performRequest w method u cfg st =
     (transport w (length (calls st)) (Dispatch method u cfg),
      st\<lparr>calls := calls st @ [Dispatch method u cfg]\<rparr>)"

subsection \<open>Submitting the answer (Cloudflare.challengeResponse)\<close>

text \<open>\<open>/submit\(\);\r?\n\s*},\s*([0-9]+)/\<close>\<close>

definition delayRegex :: regex where
  "delayRegex =
     [[Lit ''submit();'', Opt (OneOf [CHR 0x0D]), Lit [CHR 0x0A], Star Space, Lit ''},'',
       Star Space, Open 1, Plus Digit, Close 1]]"

text \<open>\<open>parseFloat\<close> on a string of decimal digits.\<close>

definition digits_value :: "string \<Rightarrow> nat" where
  "digits_value s = foldl (\<lambda>a c. 10 * a + (of_char c - 48)) 0 s"

text \<open>A header value in a condition: absent and the empty string are falsy.\<close>

definition header_truthy :: "hval option \<Rightarrow> bool" where
  "header_truthy h = (case h of None \<Rightarrow> False | Some (HStr s) \<Rightarrow> s \<noteq> [] | Some (HList l) \<Rightarrow> True)"

text \<open>
  The captcha branch. With \<open>doubleDown\<close> the same request is sent once more through the
  client (\<open>resp.config?.method || 'GET'\<close>, \<open>resp.config?.url || ''\<close>).
\<close>

definition captchaResponse :: "requester \<Rightarrow> response \<Rightarrow> config \<Rightarrow> scraper \<Rightarrow> response outcome" where
  "captchaResponse self resp cfg st =
     (let provider_check = (\<lambda>st'.
            case captcha_provider st' of
              None \<Rightarrow> Some (Inl (Error ''no captcha provider''), st')
            | Some [] \<Rightarrow> Some (Inl (Error ''no captcha provider''), st')
            | Some p \<Rightarrow>
                if p = ''return_response'' then Some (Inr resp, st')
                else Some (Inl (Error ''Captcha challenge handling not implemented yet''), st'))
      in if doubleDown st
         then (case self (Some (case c_method (config resp) of
                                  None \<Rightarrow> ''GET'' | Some [] \<Rightarrow> ''GET'' | Some m \<Rightarrow> m))
                         (case c_url (config resp) of None \<Rightarrow> [] | Some u \<Rightarrow> u) cfg st of
                 None \<Rightarrow> None
               | Some (Inl e, st') \<Rightarrow> Some (Inl e, st')
               | Some (Inr doubleDownResp, st') \<Rightarrow>
                   (case holds (isCaptchaChallenge doubleDownResp) of
                      Inl e \<Rightarrow> Some (Inl e, st')
                    | Inr False \<Rightarrow> Some (Inr doubleDownResp, st')
                    | Inr True \<Rightarrow> provider_check st'))
         else provider_check st)"

text \<open>
  The first block of the legacy-JS branch: when no delay is set, read one from the page.
  A body that cannot be read is rethrown as a \<open>CloudflareIUAMError\<close>.
\<close>

definition extract_delay :: "response \<Rightarrow> scraper \<Rightarrow> error + scraper" where
  "extract_delay resp st =
     (if delay st = None \<or> delay st = Some 0
      then (case responseData resp of
              Inl e \<Rightarrow> Inl CloudflareIUAMError
            | Inr txt \<Rightarrow>
                (case match1 delayRegex txt of
                   None \<Rightarrow> Inr st
                 | Some [] \<Rightarrow> Inr st
                 | Some ds \<Rightarrow> Inr (st\<lparr>delay := Some (of_nat (digits_value ds) / 1000)\<rparr>)))
      else Inr st)"

text \<open>
  After the answer was sent: status 400, no redirect, or a redirect to follow. The last
  statement of the source (request the original URL again) cannot be reached, since the
  resolver's result is an object.
\<close>

definition redirectConfig :: "config \<Rightarrow> response \<Rightarrow> config" where
  "redirectConfig cfg challengeResp =
     cfg\<lparr>c_headers := (c_headers cfg)(''Referer'' := c_url (config challengeResp))\<rparr>"

definition after_submit ::
  "world \<Rightarrow> requester \<Rightarrow> response \<Rightarrow> config \<Rightarrow> ChallengeResponse \<Rightarrow> response \<Rightarrow> scraper
     \<Rightarrow> response outcome"
where
  "after_submit w self resp cfg submitUrl challengeResp st =
     (if status challengeResp = 400 then Some (Inl CloudflareSolveError, st)
      else if \<not> header_truthy (headers challengeResp ''location'')
      then Some (Inr challengeResp, st)
      else
        (case headers challengeResp ''location'' of
           Some (HStr location) \<Rightarrow>
             if starts_with ''http'' location
             then self (c_method (config resp)) location (redirectConfig cfg challengeResp) st
             else (case url_resolve w location (cr_url submitUrl) of
                     None \<Rightarrow> Some (Inl TypeError, st)
                   | Some redirectLocation \<Rightarrow>
                       self (c_method (config resp)) redirectLocation
                            (redirectConfig cfg challengeResp) st)
         | _ \<Rightarrow> Some (Inl TypeError, st)))"

text \<open>The configuration of the request that submits the answer.\<close>

definition challengeConfig :: "config \<Rightarrow> response \<Rightarrow> ChallengeResponse \<Rightarrow> url \<Rightarrow> config" where
  "challengeConfig cfg resp submitUrl parsedUrl =
     cfg\<lparr>c_method := Some ''POST'',
         c_url := Some (cr_url submitUrl),
         c_data := Some (cr_data submitUrl),
         c_headers := (c_headers cfg)
            (''Origin'' \<mapsto> protocol parsedUrl @ ''//'' @ hostname parsedUrl,
             ''Referer'' := c_url (config resp)),
         c_maxRedirects := Some 0,
         c_validateAll := True\<rparr>"

definition challengeResponse ::
  "world \<Rightarrow> requester \<Rightarrow> response \<Rightarrow> config \<Rightarrow> scraper \<Rightarrow> response outcome"
where
  "challengeResponse w self resp cfg st =
     (case holds (isCaptchaChallenge resp) of
        Inl e \<Rightarrow> Some (Inl e, st)
      | Inr True \<Rightarrow> captchaResponse self resp cfg st
      | Inr False \<Rightarrow>
          (case extract_delay resp st of
             Inl e \<Rightarrow> Some (Inl e, st)
           | Inr st1 \<Rightarrow>
          (case responseData resp of
             Inl e \<Rightarrow> Some (Inl e, st1)
           | Inr txt \<Rightarrow>
          (let urlString = (case c_url (config resp) of None \<Rightarrow> [] | Some u \<Rightarrow> u) in
           case iuamChallengeResponse w txt urlString (interpreter st1) of
             None \<Rightarrow> None
           | Some (Inl e) \<Rightarrow> Some (Inl e, st1)
           | Some (Inr submitUrl) \<Rightarrow>
          (case url_parse w urlString of
             None \<Rightarrow> Some (Inl TypeError, st1)
           | Some parsedUrl \<Rightarrow>
          (case self (Some ''POST'') (cr_url submitUrl)
                     (challengeConfig cfg resp submitUrl parsedUrl) st1 of
             None \<Rightarrow> None
           | Some (Inl e, st2) \<Rightarrow> Some (Inl e, st2)
           | Some (Inr challengeResp, st2) \<Rightarrow>
               after_submit w self resp cfg submitUrl challengeResp st2))))))"

subsection \<open>Classification, 403 handling and the request itself\<close>

definition handle403Error ::
  "world \<Rightarrow> requester \<Rightarrow> response \<Rightarrow> string option \<Rightarrow> string \<Rightarrow> config \<Rightarrow> scraper
     \<Rightarrow> response outcome"
where
  "handle403Error w self resp method u cfg st =
     (if retryCount403 st < max403Retries st
      then
        (case now w (st\<lparr>retryCount403 := retryCount403 st + 1\<rparr>) of (t, st1) \<Rightarrow>
         case refreshSession w u (st1\<lparr>last403Time := t\<rparr>) of
           (True, st2) \<Rightarrow>
             (case self method u cfg (st2\<lparr>in403RetryFlag := True\<rparr>) of
                None \<Rightarrow> None
              | Some (Inl e, st3) \<Rightarrow> Some (Inl e, st3\<lparr>in403RetryFlag := False\<rparr>)
              | Some (Inr retryResponse, st3) \<Rightarrow>
                  Some (Inr retryResponse,
                        (if status retryResponse = 200 then st3\<lparr>retryCount403 := 0\<rparr> else st3)
                          \<lparr>in403RetryFlag := False\<rparr>))
         | (False, st2) \<Rightarrow> Some (Inr resp, release st2))
      else Some (Inr resp, release st))"

definition handleCloudflareChallenges ::
  "world \<Rightarrow> requester \<Rightarrow> response \<Rightarrow> string option \<Rightarrow> string \<Rightarrow> config \<Rightarrow> scraper
     \<Rightarrow> response outcome"
where
  "handleCloudflareChallenges w self resp method u cfg st =
     (if solveDepthCnt st \<ge> solveDepth st
      then Some (Inl (CloudflareLoopProtection (solveDepthCnt st)), st\<lparr>solveDepthCnt := 0\<rparr>)
      else
        (case (if disableCloudflareV1 st then Inr False else isChallengeRequest resp) of
           Inl e \<Rightarrow> Some (Inl e, st)
         | Inr True \<Rightarrow> challengeResponse w self resp cfg (st\<lparr>solveDepthCnt := solveDepthCnt st + 1\<rparr>)
         | Inr False \<Rightarrow>
             (let st1 =
                    (if \<not> header_truthy (headers resp ''location'')
                        \<and> status resp \<noteq> 429 \<and> status resp \<noteq> 503
                     then (if status resp = 200 \<and> \<not> in403RetryFlag st
                           then st\<lparr>solveDepthCnt := 0, retryCount403 := 0\<rparr>
                           else st\<lparr>solveDepthCnt := 0\<rparr>)
                     else st)
              in if status resp = 403 \<and> autoRefreshOn403 st1
                 then handle403Error w self resp method u cfg st1
                 else Some (Inr resp, release st1))))"

text \<open>
  The body of \<open>request\<close>, with \<open>self\<close> for the calls that come back into \<open>request\<close> through
  the client object. The pre-hook runs after the in-flight counter was raised and before the
  \<open>try\<close>; the \<open>catch\<close> lowers the counter and rethrows.
\<close>

definition request_body ::
  "world \<Rightarrow> nat \<Rightarrow> requester \<Rightarrow> string option \<Rightarrow> string \<Rightarrow> config \<Rightarrow> scraper \<Rightarrow> response outcome"
where
  "request_body w fuel self method u cfg st =
     (case applyRequestThrottling w fuel st of
        None \<Rightarrow> None
      | Some st1 \<Rightarrow>
     (let st2 = (case shouldRefreshSession w st1 of
                   (True, s) \<Rightarrow> snd (refreshSession w u s)
                 | (False, s) \<Rightarrow> s);
          cfg1 = (if enableStealth st2
                  then applyStealthTechniques w (length (calls st2)) method u cfg else cfg);
          st3 = st2\<lparr>requestCount := requestCount st2 + 1,
                    currentConcurrentRequests := currentConcurrentRequests st2 + 1\<rparr>
      in case (case requestPreHook w of
                 None \<Rightarrow> Inr (method, u, cfg1)
               | Some hook \<Rightarrow> hook method u cfg1) of
           Inl e \<Rightarrow> Some (Inl e, st3)
         | Inr (method1, u1, cfg2) \<Rightarrow>
             (case (case performRequest w method1 u1 cfg2 st3 of
                      (Inl e, st4) \<Rightarrow> Some (Inl e, st4)
                    | (Inr resp, st4) \<Rightarrow>
                        (case (case requestPostHook w of
                                 None \<Rightarrow> Inr None
                               | Some hook \<Rightarrow> hook resp) of
                           Inl e \<Rightarrow> Some (Inl e, st4)
                         | Inr (Some newResponse) \<Rightarrow> Some (Inr newResponse, st4)
                         | Inr None \<Rightarrow>
                             handleCloudflareChallenges w self resp method1 u1 cfg2 st4)) of
                None \<Rightarrow> None
              | Some (Inl e, st5) \<Rightarrow> Some (Inl e, release st5)
              | Some (Inr r, st5) \<Rightarrow> Some (Inr r, st5))))"

text \<open>\<open>request(method, url, config)\<close>, with fuel for the nested calls and for the polling.\<close>

primrec request :: "nat \<Rightarrow> world \<Rightarrow> requester" where
  "request 0 w = (\<lambda>method u cfg st. None)"
| "request (Suc n) w = request_body w n (request n w)"

subsection \<open>The constructor\<close>

text \<open>The options that set the fields above; \<open>None\<close> is an option left out.\<close>

record options =
  o_disableCloudflareV1 :: "bool option"
  o_delay :: "rat option"
  o_captcha_provider :: "string option"
  o_doubleDown :: "bool option"
  o_interpreter :: "string option"
  o_solveDepth :: "int option"
  o_sessionRefreshInterval :: "int option"
  o_autoRefreshOn403 :: "bool option"
  o_max403Retries :: "int option"
  o_maxConcurrentRequests :: "int option"
  o_enableStealth :: "bool option"

text \<open>\<open>x || d\<close> on an optional number: zero counts as left out.\<close>

definition num_or :: "int option \<Rightarrow> int \<Rightarrow> int" where
  "num_or x d = (case x of None \<Rightarrow> d | Some n \<Rightarrow> if n = 0 then d else n)"

text \<open>
  The constructor reads the clock once. A flag written \<open>x || false\<close> is on only when set,
  one written \<open>x !== false\<close> is on unless switched off.
\<close>

definition new_CloudScraper :: "world \<Rightarrow> options \<Rightarrow> scraper" where
  "new_CloudScraper w opts =
     \<lparr>disableCloudflareV1 = (o_disableCloudflareV1 opts = Some True),
      delay = (if o_delay opts = Some 0 then None else o_delay opts),
      captcha_provider = o_captcha_provider opts,
      doubleDown = (o_doubleDown opts \<noteq> Some False),
      interpreter = (case o_interpreter opts of None \<Rightarrow> ''js2py'' | Some [] \<Rightarrow> ''js2py'' | Some i \<Rightarrow> i),
      solveDepthCnt = 0,
      solveDepth = num_or (o_solveDepth opts) 3,
      sessionStartTime = clock w 0,
      requestCount = 0,
      last403Time = 0,
      sessionRefreshInterval = num_or (o_sessionRefreshInterval opts) 3600,
      autoRefreshOn403 = (o_autoRefreshOn403 opts \<noteq> Some False),
      max403Retries = num_or (o_max403Retries opts) 3,
      retryCount403 = 0,
      in403RetryFlag = False,
      lastRequestTime = 0,
      maxConcurrentRequests = num_or (o_maxConcurrentRequests opts) 1,
      currentConcurrentRequests = 0,
      enableStealth = (o_enableStealth opts \<noteq> Some False),
      calls = [],
      ticks = 1\<rparr>"

subsection \<open>Tokens and the cookie string\<close>










section \<open>Notions used in the statements, and sample inputs\<close>

text \<open>The text of a body that can be read (empty for a missing body).\<close>

definition body_text :: "response \<Rightarrow> string" where
  "body_text resp = (case data resp of Str s \<Rightarrow> s | Obj s \<Rightarrow> s | Nullish \<Rightarrow> [])"

text \<open>
  What the three static predicates return, given the truth of their conditions on status and
  body: \<open>false\<close> for a missing body or a header that is not a string, \<open>undefined\<close> for a
  missing header.
\<close>

definition static_result :: "response \<Rightarrow> bool \<Rightarrow> jsval" where
  "static_result resp rest =
     (if data resp = Nullish then JFalse
      else case headers resp ''server'' of
             None \<Rightarrow> JUndefined
           | Some (HList l) \<Rightarrow> JFalse
           | Some (HStr s) \<Rightarrow> jbool (starts_with ''cloudflare'' s \<and> rest))"

text \<open>Sample pages and responses.\<close>

definition no_config :: config where
  "no_config = \<lparr>c_method = None, c_url = None, c_headers = Map.empty, c_data = None,
                 c_proxy = None, c_maxRedirects = None, c_validateAll = False\<rparr>"

definition get_config :: "string \<Rightarrow> config" where
  "get_config u = no_config\<lparr>c_method := Some ''GET'', c_url := Some u\<rparr>"

definition form_html :: string where
  "form_html = ''<form id=\"challenge-form\" action=\"/?a=1&amp;__cf_chl_f_tk=abc\" method=\"POST\"><input type=\"hidden\" name=\"r\" value=\"RR\"/><input name=\"x\" value=\"y\"><input name=\"pass\" value=\"PP\"></form>''"

definition unspaced_form_html :: string where
  "unspaced_form_html = ''<form id=\"challenge-form\" action=\"/?a=1&amp;__cf_chl_f_tk=abc\"method=\"POST\"><input type=\"hidden\" name=\"r\" value=\"RR\"/><input name=\"x\" value=\"y\"><input name=\"pass\" value=\"PP\"></form>''"

definition jsch_page :: string where
  "jsch_page = ''<img src=\"/cdn-cgi/images/trace/jsch/t.gif\">'' @ form_html"

definition unspaced_page :: string where
  "unspaced_page = ''<img src=\"/cdn-cgi/images/trace/jsch/t.gif\">'' @ unspaced_form_html"

definition captcha_page :: string where
  "captcha_page = ''<img src=\"/cdn-cgi/images/trace/captcha/t.gif\">'' @ form_html"

definition cloudflare_response :: "int \<Rightarrow> string \<Rightarrow> response" where
  "cloudflare_response st txt =
     \<lparr>status = st, headers = [''server'' \<mapsto> HStr ''cloudflare''], data = Str txt,
      config = get_config ''https://example.com/''\<rparr>"

definition resp_jsch :: response where
  "resp_jsch = cloudflare_response 503 jsch_page"
definition resp_unspaced :: response where
  "resp_unspaced = cloudflare_response 503 unspaced_page"
definition resp_captcha :: response where
  "resp_captcha = cloudflare_response 403 captcha_page"
definition resp_1020 :: response where
  "resp_1020 = cloudflare_response 403 (captcha_page @ ''<span class=\"cf-error-code\">1020</span>'')"
definition resp_new_jsch :: response where
  "resp_new_jsch = cloudflare_response 503 (jsch_page @ ''cpo.src = \"/cdn-cgi/challenge-platform/h/b/orchestrate/jsch/v1\"'')"
definition resp_new_captcha :: response where
  "resp_new_captcha = cloudflare_response 403 (captcha_page @ ''cpo.src=\"/cdn-cgi/challenge-platform/h/b/orchestrate/managed/v1\"'')"
definition resp_no_server :: response where
  "resp_no_server = \<lparr>status = 503, headers = Map.empty, data = Str jsch_page, config = get_config ''https://example.com/''\<rparr>"

definition resp_nginx :: response where
  "resp_nginx = \<lparr>status = 503, headers = [''server'' \<mapsto> HStr ''nginx''], data = Str jsch_page,
                 config = get_config ''https://example.com/''\<rparr>"


definition default_options :: options where
  "default_options =
     \<lparr>o_disableCloudflareV1 = None, o_delay = None, o_captcha_provider = None,
      o_doubleDown = None, o_interpreter = None, o_solveDepth = None,
      o_sessionRefreshInterval = None, o_autoRefreshOn403 = None, o_max403Retries = None,
      o_maxConcurrentRequests = None, o_enableStealth = None\<rparr>"

text \<open>What a call gave back, when it returned, and one entry of a resolver's payload.\<close>

definition returned :: "(error + 'a) option \<Rightarrow> 'a option" where
  "returned r = (case r of Some (Inr x) \<Rightarrow> Some x | _ \<Rightarrow> None)"

definition payload_at :: "string \<Rightarrow> ChallengeResponse \<Rightarrow> string option" where
  "payload_at key cr = cr_data cr key"

text \<open>A host without a script engine.\<close>

definition no_engine :: "string \<Rightarrow> string \<Rightarrow> error + string" where
  "no_engine body domain = Inl (Error ''no engine'')"

text \<open>A URL parser for the sample host, and a world where time stands still.\<close>

definition example_url :: "string \<Rightarrow> url option" where
  "example_url u =
     (if starts_with ''https://example.com'' u
      then Some \<lparr>protocol = ''https:'', hostname = ''example.com'', href = u\<rparr> else None)"

definition no_transport :: "nat \<Rightarrow> call \<Rightarrow> error + response" where
  "no_transport n c = Inl (TransportError ''ECONNREFUSED'')"

definition still_world :: "(nat \<Rightarrow> call \<Rightarrow> error + response) \<Rightarrow> world" where
  "still_world t =
     \<lparr>transport = t, clock = (\<lambda>n. 0), url_parse = example_url,
      url_resolve = (\<lambda>l b. Some (''https://example.com'' @ l)),
      native = no_engine,
      applyStealthTechniques = (\<lambda>n m u c. c), requestPreHook = None, requestPostHook = None,
      getUserAgent = (\<lambda>n. ''UA'')\<rparr>"

text \<open>The value, the error and the final state of a call that ended.\<close>

definition value_of :: "'a outcome \<Rightarrow> 'a option" where
  "value_of r = (case r of Some (Inr x, st) \<Rightarrow> Some x | _ \<Rightarrow> None)"

definition error_of :: "'a outcome \<Rightarrow> error option" where
  "error_of r = (case r of Some (Inl e, st) \<Rightarrow> Some e | _ \<Rightarrow> None)"

definition state_of :: "'a outcome \<Rightarrow> scraper option" where
  "state_of r = (case r of Some (x, st) \<Rightarrow> Some st | None \<Rightarrow> None)"

text \<open>
  A location is a relative reference when it does not begin with a scheme (a letter, then
  letters, digits, \<open>+\<close>, \<open>-\<close> or \<open>.\<close>, then a colon). This follows the usual meaning of
  "relative" in the specification's sentence; the source has no such notion.
\<close>

definition alpha_char :: "char \<Rightarrow> bool" where
  "alpha_char c = ((65::nat) \<le> of_char c \<and> of_char c \<le> (90::nat)
                   \<or> (97::nat) \<le> of_char c \<and> of_char c \<le> (122::nat))"

definition scheme_char :: "char \<Rightarrow> bool" where
  "scheme_char c = (alpha_char c \<or> cmatch Digit c \<or> c \<in> set ''+-.'')"

definition has_scheme :: "string \<Rightarrow> bool" where
  "has_scheme l =
     (case l of
        [] \<Rightarrow> False
      | c # cs \<Rightarrow> alpha_char c \<and> (case dropWhile scheme_char cs of
                                      [] \<Rightarrow> False
                                    | x # xs \<Rightarrow> x = CHR '':''))"

definition relative_reference :: "string \<Rightarrow> bool" where
  "relative_reference l = (\<not> has_scheme l)"

text \<open>
  Stand-ins for the client's \<open>request\<close>: one answers every request with a page that repeats
  the URL and configuration it was given; the other answers a POST with a redirect to a given
  location and anything else like the first.
\<close>

definition echo_request :: requester where
  "echo_request method u cfg st =
     Some (Inr \<lparr>status = 200, headers = Map.empty, data = Str u,
                config = cfg\<lparr>c_method := method, c_url := Some u\<rparr>\<rparr>, st)"

definition redirect_response :: "string \<Rightarrow> response" where
  "redirect_response l =
     \<lparr>status = 302, headers = [''location'' \<mapsto> HStr l], data = Str [],
      config = no_config\<lparr>c_method := Some ''POST'',
                         c_url := Some ''https://example.com/?a=1&__cf_chl_f_tk=abc''\<rparr>\<rparr>"

definition example_resolve :: "string \<Rightarrow> string \<Rightarrow> string option" where
  "example_resolve l base =
     Some (if starts_with ''/'' l then ''https://example.com'' @ l
           else ''https://example.com/'' @ l)"

definition sample_answer :: ChallengeResponse where
  "sample_answer =
     \<lparr>cr_url = ''https://example.com/?a=1&__cf_chl_f_tk=abc'',
      cr_data = [''r'' \<mapsto> ''RR'', ''pass'' \<mapsto> ''PP'', ''jschl_answer'' \<mapsto> ''0'']\<rparr>"

definition redirecting_request :: "string \<Rightarrow> requester" where
  "redirecting_request l method u cfg st =
     (if method = Some ''POST'' then Some (Inr (redirect_response l), st)
      else echo_request method u cfg st)"

definition resolving_world :: world where
  "resolving_world = (still_world no_transport)\<lparr>url_resolve := example_resolve\<rparr>"

text \<open>A transport that answers every call with a plain page.\<close>

definition ok_transport :: "nat \<Rightarrow> call \<Rightarrow> error + response" where
  "ok_transport n c =
     Inr \<lparr>status = 200, headers = Map.empty, data = Str ''ok'',
          config = (case c of
                      Dispatch m u cfg \<Rightarrow> cfg\<lparr>c_method := m, c_url := Some u\<rparr>
                    | Probe u \<Rightarrow> get_config u)\<rparr>"

definition sample_url :: string where
  "sample_url = ''https://example.com/''"

text \<open>The dispatches and the refresh probes among the calls made so far.\<close>

fun is_dispatch :: "call \<Rightarrow> bool" where
  "is_dispatch (Dispatch m u cfg) = True"
| "is_dispatch (Probe u) = False"

definition dispatches :: "scraper \<Rightarrow> nat" where
  "dispatches st = length (filter is_dispatch (calls st))"

definition probes :: "scraper \<Rightarrow> nat" where
  "probes st = length (filter (Not \<circ> is_dispatch) (calls st))"

text \<open>
  The session is fresh when the staleness check of a request, made after its throttle, does
  not ask for a refresh.
\<close>

definition session_fresh :: "world \<Rightarrow> scraper \<Rightarrow> bool" where
  "session_fresh w st =
     (case applyRequestThrottling w 1 st of
        None \<Rightarrow> False
      | Some st1 \<Rightarrow> \<not> fst (shouldRefreshSession w st1))"

text \<open>
  The state after the throttle and the staleness check, the state in which a request is
  dispatched, and the configuration it is dispatched with.
\<close>

definition pre_refresh :: "world \<Rightarrow> string \<Rightarrow> scraper \<Rightarrow> scraper" where
  "pre_refresh w u st =
     (case shouldRefreshSession w
             (st\<lparr>ticks := ticks st + 2, lastRequestTime := clock w (Suc (ticks st))\<rparr>) of
        (True, s) \<Rightarrow> snd (refreshSession w u s)
      | (False, s) \<Rightarrow> s)"

definition pre_dispatch :: "world \<Rightarrow> string \<Rightarrow> scraper \<Rightarrow> scraper" where
  "pre_dispatch w u st =
     (pre_refresh w u st)
       \<lparr>requestCount := requestCount (pre_refresh w u st) + 1,
        currentConcurrentRequests := currentConcurrentRequests (pre_refresh w u st) + 1\<rparr>"

definition pre_config :: "world \<Rightarrow> string option \<Rightarrow> string \<Rightarrow> config \<Rightarrow> scraper \<Rightarrow> config" where
  "pre_config w method u cfg st =
     (if enableStealth (pre_refresh w u st)
      then applyStealthTechniques w (length (calls (pre_refresh w u st))) method u cfg
      else cfg)"

definition dispatched :: "world \<Rightarrow> string option \<Rightarrow> string \<Rightarrow> config \<Rightarrow> scraper \<Rightarrow> scraper" where
  "dispatched w method u cfg st =
     (pre_dispatch w u st)
       \<lparr>calls := calls (pre_dispatch w u st) @ [Dispatch method u (pre_config w method u cfg st)]\<rparr>"

text \<open>
  A response is a legacy JS challenge that can be resolved: it is classified as a challenge,
  it is not a captcha challenge, its page and the URL of its request can be read, and the
  resolver returns an answer for them.
\<close>

definition solvable :: "world \<Rightarrow> string \<Rightarrow> response \<Rightarrow> bool" where
  "solvable w interp r =
     (isChallengeRequest r = Inr True \<and> holds (isCaptchaChallenge r) = Inr False \<and>
      (case responseData r of
         Inl e \<Rightarrow> False
       | Inr page \<Rightarrow>
           (case c_url (config r) of
              None \<Rightarrow> False
            | Some u \<Rightarrow>
                (case iuamChallengeResponse w page u interp of
                   Some (Inr cr) \<Rightarrow> True
                 | _ \<Rightarrow> False))))"

text \<open>
  More samples: a challenge page cut off inside its form, transports that answer every call
  alike or only the first call with a challenge, a plain 403, options, and a post-hook that
  returns a new response.
\<close>

definition broken_page :: string where
  "broken_page = ''<img src=\"/cdn-cgi/images/trace/jsch/t.gif\"><form id=\"challenge-form\" action=\"/x?__cf_chl_f_tk=abc''"

definition always :: "response \<Rightarrow> nat \<Rightarrow> call \<Rightarrow> error + response" where
  "always r n c = Inr r"

definition challenge_once :: "nat \<Rightarrow> call \<Rightarrow> error + response" where
  "challenge_once n c = (if n = 0 then Inr resp_jsch else ok_transport n c)"

definition resp_forbidden :: response where
  "resp_forbidden = \<lparr>status = 403, headers = [''server'' \<mapsto> HStr ''nginx''], data = Str ''Forbidden'',
                      config = get_config ''https://example.com/''\<rparr>"

definition with_slots :: "int \<Rightarrow> options" where
  "with_slots k = default_options\<lparr>o_maxConcurrentRequests := Some k\<rparr>"

definition two_retries :: options where
  "two_retries = default_options\<lparr>o_max403Retries := Some 2\<rparr>"

definition replace_hook :: "response \<Rightarrow> error + response option" where
  "replace_hook r = Inr (Some (r\<lparr>data := Str ''rewritten''\<rparr>))"

definition hook_world :: world where
  "hook_world = (still_world ok_transport)\<lparr>requestPostHook := Some replace_hook\<rparr>"

section \<open>The detectors\<close>

lemma responseData_cases:
  "responseData resp = (if data resp = Nullish then Inl TypeError else Inr (body_text resp))"
  by (simp add: responseData_def body_text_def split: body.splits)

lemma isIUAMChallenge_eq:
  "isIUAMChallenge resp =
     Inr (static_result resp (status resp \<in> {429, 503}
            \<and> matches rx_trace_jsch (body_text resp) \<and> matches rx_challenge_form (body_text resp)))"
  by (simp add: isIUAMChallenge_def static_result_def responseData_cases catch_def
        server_startsWith_cloudflare_def js_and_def jbool_def truthy_def
      split: option.splits hval.splits)

lemma isCaptchaChallenge_eq:
  "isCaptchaChallenge resp =
     Inr (static_result resp (status resp = 403
            \<and> matches rx_trace_captcha (body_text resp) \<and> matches rx_challenge_form (body_text resp)))"
  by (simp add: isCaptchaChallenge_def static_result_def responseData_cases catch_def
        server_startsWith_cloudflare_def js_and_def jbool_def truthy_def
      split: option.splits hval.splits)

lemma isFirewallBlocked_eq:
  "isFirewallBlocked resp =
     Inr (static_result resp (status resp = 403 \<and> matches rx_error_1020 (body_text resp)))"
  by (simp add: isFirewallBlocked_def static_result_def responseData_cases catch_def
        server_startsWith_cloudflare_def js_and_def jbool_def truthy_def
      split: option.splits hval.splits)

lemma isNewIUAMChallenge_eq:
  "isNewIUAMChallenge resp =
     Inr (static_result resp (status resp \<in> {429, 503}
            \<and> matches rx_trace_jsch (body_text resp) \<and> matches rx_challenge_form (body_text resp)
            \<and> matches rx_orchestrate_jsch (body_text resp)))"
  by (simp add: isNewIUAMChallenge_def isIUAMChallenge_eq static_result_def responseData_cases catch_def
         jbool_def truthy_def
      split: option.splits hval.splits)

lemma isNewCaptchaChallenge_eq:
  "isNewCaptchaChallenge resp =
     Inr (static_result resp (status resp = 403
            \<and> matches rx_trace_captcha (body_text resp) \<and> matches rx_challenge_form (body_text resp)
            \<and> matches rx_orchestrate_captcha (body_text resp)))"
  by (simp add: isNewCaptchaChallenge_def isCaptchaChallenge_eq static_result_def responseData_cases catch_def
         jbool_def truthy_def
      split: option.splits hval.splits)

lemmas detector_eqs = isIUAMChallenge_eq isCaptchaChallenge_eq isFirewallBlocked_eq
  isNewIUAMChallenge_eq isNewCaptchaChallenge_eq

lemma static_result_true:
  "static_result resp rest = JTrue \<longleftrightarrow>
     server_startsWith_cloudflare resp = Inr JTrue \<and> data resp \<noteq> Nullish \<and> rest"
  by (simp add: static_result_def server_startsWith_cloudflare_def jbool_def
      split: option.splits hval.splits)

lemma static_result_not_cloudflare:
  "server_startsWith_cloudflare resp \<noteq> Inr JTrue \<Longrightarrow>
   static_result resp rest =
     (if headers resp ''server'' = None \<and> data resp \<noteq> Nullish then JUndefined else JFalse)"
  by (auto simp: static_result_def server_startsWith_cloudflare_def jbool_def
      split: option.splits hval.splits if_splits)

text \<open>
  C10. Each of the five detector predicates returns on every response (it never throws: a
  missing body, a body that is not a string, a missing or non-string server header are all
  answered with a value), and it returns \<open>true\<close> exactly when all of its conditions hold.
\<close>

theorem detectors_total:
  "(\<exists>v. isIUAMChallenge resp = Inr v) \<and>
   (\<exists>v. isCaptchaChallenge resp = Inr v) \<and>
   (\<exists>v. isNewIUAMChallenge resp = Inr v) \<and>
   (\<exists>v. isNewCaptchaChallenge resp = Inr v) \<and>
   (\<exists>v. isFirewallBlocked resp = Inr v) \<and>
   (isIUAMChallenge resp = Inr JTrue \<longleftrightarrow>
      server_startsWith_cloudflare resp = Inr JTrue \<and> status resp \<in> {429, 503} \<and>
      (\<exists>txt. responseData resp = Inr txt \<and> matches rx_trace_jsch txt \<and> matches rx_challenge_form txt)) \<and>
   (isCaptchaChallenge resp = Inr JTrue \<longleftrightarrow>
      server_startsWith_cloudflare resp = Inr JTrue \<and> status resp = 403 \<and>
      (\<exists>txt. responseData resp = Inr txt \<and> matches rx_trace_captcha txt \<and> matches rx_challenge_form txt)) \<and>
   (isNewIUAMChallenge resp = Inr JTrue \<longleftrightarrow>
      isIUAMChallenge resp = Inr JTrue \<and>
      (\<exists>txt. responseData resp = Inr txt \<and> matches rx_orchestrate_jsch txt)) \<and>
   (isNewCaptchaChallenge resp = Inr JTrue \<longleftrightarrow>
      isCaptchaChallenge resp = Inr JTrue \<and>
      (\<exists>txt. responseData resp = Inr txt \<and> matches rx_orchestrate_captcha txt)) \<and>
   (isFirewallBlocked resp = Inr JTrue \<longleftrightarrow>
      server_startsWith_cloudflare resp = Inr JTrue \<and> status resp = 403 \<and>
      (\<exists>txt. responseData resp = Inr txt \<and> matches rx_error_1020 txt))"
  by (simp add: detector_eqs static_result_true responseData_cases)

theorem detectors_total_witness:
  "isIUAMChallenge resp_jsch = Inr JTrue \<and> status resp_jsch \<in> {429, 503} \<and>
   isCaptchaChallenge resp_captcha = Inr JTrue \<and> status resp_captcha = 403 \<and>
   isFirewallBlocked resp_1020 = Inr JTrue \<and>
   server_startsWith_cloudflare resp_1020 = Inr JTrue \<and>
   isNewIUAMChallenge resp_new_jsch = Inr JTrue \<and> isIUAMChallenge resp_new_jsch = Inr JTrue \<and>
   isNewCaptchaChallenge resp_new_captcha = Inr JTrue \<and>
   isCaptchaChallenge resp_new_captcha = Inr JTrue"
proof -
  have a: "isIUAMChallenge resp_jsch = Inr JTrue" by code_simp
  have b: "isCaptchaChallenge resp_captcha = Inr JTrue" by code_simp
  have c: "isFirewallBlocked resp_1020 = Inr JTrue" by code_simp
  have d: "isNewIUAMChallenge resp_new_jsch = Inr JTrue" by code_simp
  have e: "isNewCaptchaChallenge resp_new_captcha = Inr JTrue" by code_simp
  show ?thesis
    using a b c d e detectors_total [of resp_jsch] detectors_total [of resp_captcha]
      detectors_total [of resp_1020] detectors_total [of resp_new_jsch]
      detectors_total [of resp_new_captcha]
    by simp
qed

text \<open>
  On a response whose server header does not start with "cloudflare", each of the five
  predicates returns the same value, which is never \<open>true\<close>: \<open>false\<close>, except that a response
  with no server header and a body that can be read gives \<open>undefined\<close>.
\<close>

lemma non_cloudflare_value:
  "server_startsWith_cloudflare resp \<noteq> Inr JTrue \<Longrightarrow>
   (let v = (if headers resp ''server'' = None \<and> data resp \<noteq> Nullish
             then JUndefined else JFalse)
    in isIUAMChallenge resp = Inr v \<and> isCaptchaChallenge resp = Inr v \<and>
       isNewIUAMChallenge resp = Inr v \<and> isNewCaptchaChallenge resp = Inr v \<and>
       isFirewallBlocked resp = Inr v \<and> v \<noteq> JTrue)"
  by (simp add: detector_eqs static_result_not_cloudflare Let_def)

text \<open>
  C6. The predicates are declared to return a boolean, and they return \<open>false\<close> on a response
  whose server header names another server, on one whose header is a list, and on one
  without a body. On a response with no server header at all and a body that can be read,
  \<open>resp.headers['server']?.startsWith('cloudflare') && ...\<close> evaluates to \<open>undefined\<close>, and
  that is what each of the five predicates returns instead of \<open>false\<close>.
\<close>

theorem detectors_undefined_without_server_header:
  "headers resp_no_server ''server'' = None \<and>
   isIUAMChallenge resp_no_server = Inr JUndefined \<and>
   isCaptchaChallenge resp_no_server = Inr JUndefined \<and>
   isNewIUAMChallenge resp_no_server = Inr JUndefined \<and>
   isNewCaptchaChallenge resp_no_server = Inr JUndefined \<and>
   isFirewallBlocked resp_no_server = Inr JUndefined \<and>
   isIUAMChallenge resp_nginx = Inr JFalse \<and>
   isCaptchaChallenge resp_nginx = Inr JFalse \<and>
   isNewIUAMChallenge resp_nginx = Inr JFalse \<and>
   isNewCaptchaChallenge resp_nginx = Inr JFalse \<and>
   isFirewallBlocked resp_nginx = Inr JFalse \<and>
   isIUAMChallenge (resp_no_server\<lparr>headers := [''server'' \<mapsto> HList [''nginx'']]\<rparr>) = Inr JFalse \<and>
   isIUAMChallenge (resp_no_server\<lparr>data := Nullish\<rparr>) = Inr JFalse"
proof -
  have a: "headers resp_no_server ''server'' = None"
    by (simp add: resp_no_server_def)
  have b: "isIUAMChallenge resp_no_server = Inr JUndefined"
    "isCaptchaChallenge resp_no_server = Inr JUndefined"
    "isNewIUAMChallenge resp_no_server = Inr JUndefined"
    "isNewCaptchaChallenge resp_no_server = Inr JUndefined"
    "isFirewallBlocked resp_no_server = Inr JUndefined"
    by code_simp+
  have c: "isIUAMChallenge resp_nginx = Inr JFalse"
    "isCaptchaChallenge resp_nginx = Inr JFalse"
    "isNewIUAMChallenge resp_nginx = Inr JFalse"
    "isNewCaptchaChallenge resp_nginx = Inr JFalse"
    "isFirewallBlocked resp_nginx = Inr JFalse"
    by code_simp+
  have d: "isIUAMChallenge (resp_no_server\<lparr>headers := [''server'' \<mapsto> HList [''nginx'']]\<rparr>)
             = Inr JFalse"
    "isIUAMChallenge (resp_no_server\<lparr>data := Nullish\<rparr>) = Inr JFalse"
    by code_simp+
  show ?thesis using a b c d by simp
qed

section \<open>Classification\<close>

lemma holds_detectors:
  "holds (isFirewallBlocked resp) = Inr (isFirewallBlocked resp = Inr JTrue)"
  "holds (isNewCaptchaChallenge resp) = Inr (isNewCaptchaChallenge resp = Inr JTrue)"
  "holds (isNewIUAMChallenge resp) = Inr (isNewIUAMChallenge resp = Inr JTrue)"
  "holds (isCaptchaChallenge resp) = Inr (isCaptchaChallenge resp = Inr JTrue)"
  "holds (isIUAMChallenge resp) = Inr (isIUAMChallenge resp = Inr JTrue)"
  by (simp_all add: holds_def detector_eqs truthy_def)

lemma isChallengeRequest_eq:
  "isChallengeRequest resp =
     (if isFirewallBlocked resp = Inr JTrue then Inl CloudflareCode1020
      else if isNewCaptchaChallenge resp = Inr JTrue then Inl CloudflareChallengeError
      else if isNewIUAMChallenge resp = Inr JTrue then Inl CloudflareChallengeError
      else Inr (isCaptchaChallenge resp = Inr JTrue \<or> isIUAMChallenge resp = Inr JTrue))"
  unfolding isChallengeRequest_def holds_detectors by (simp split: bool.splits)

text \<open>
  C1. Classification decides in a fixed order of priority. A response that the firewall-block
  predicate accepts (a Cloudflare response with status 403 and the 1020 marker, whatever
  else the body holds) makes \<open>isChallengeRequest\<close> throw \<open>CloudflareCode1020\<close>; otherwise one
  that a newer-challenge predicate accepts makes it throw \<open>CloudflareChallengeError\<close>;
  otherwise it returns \<open>true\<close> exactly for the legacy captcha and legacy JS challenges.
  In the orchestrator a thrown classification ends the handling at once, in an unchanged
  state and whatever the client's \<open>request\<close> is (so nothing more is dispatched), and only
  \<open>true\<close> leads into \<open>challengeResponse\<close>.
\<close>

theorem classification_order:
  "(isFirewallBlocked resp = Inr JTrue \<longrightarrow> isChallengeRequest resp = Inl CloudflareCode1020) \<and>
   (server_startsWith_cloudflare resp = Inr JTrue \<and> status resp = 403
      \<and> responseData resp = Inr txt \<and> matches rx_error_1020 txt
      \<longrightarrow> isChallengeRequest resp = Inl CloudflareCode1020) \<and>
   (isFirewallBlocked resp \<noteq> Inr JTrue
      \<and> (isNewCaptchaChallenge resp = Inr JTrue \<or> isNewIUAMChallenge resp = Inr JTrue)
      \<longrightarrow> isChallengeRequest resp = Inl CloudflareChallengeError) \<and>
   (isFirewallBlocked resp \<noteq> Inr JTrue \<and> isNewCaptchaChallenge resp \<noteq> Inr JTrue
      \<and> isNewIUAMChallenge resp \<noteq> Inr JTrue
      \<longrightarrow> isChallengeRequest resp
            = Inr (isCaptchaChallenge resp = Inr JTrue \<or> isIUAMChallenge resp = Inr JTrue)) \<and>
   (solveDepthCnt st < solveDepth st \<and> \<not> disableCloudflareV1 st \<and> isChallengeRequest resp = Inl e
      \<longrightarrow> handleCloudflareChallenges w self resp m u cfg st = Some (Inl e, st)) \<and>
   (solveDepthCnt st < solveDepth st \<and> \<not> disableCloudflareV1 st \<and> isChallengeRequest resp = Inr True
      \<longrightarrow> handleCloudflareChallenges w self resp m u cfg st
            = challengeResponse w self resp cfg (st\<lparr>solveDepthCnt := solveDepthCnt st + 1\<rparr>))"
proof -
  have fb: "server_startsWith_cloudflare resp = Inr JTrue \<and> status resp = 403
      \<and> responseData resp = Inr txt \<and> matches rx_error_1020 txt
      \<longrightarrow> isFirewallBlocked resp = Inr JTrue"
    by (auto simp: isFirewallBlocked_eq static_result_true responseData_cases split: if_splits)
  show ?thesis
    using fb by (simp add: isChallengeRequest_eq handleCloudflareChallenges_def)
qed

theorem classification_order_witness:
  "isChallengeRequest resp_1020 = Inl CloudflareCode1020 \<and>
   isCaptchaChallenge resp_1020 = Inr JTrue \<and>
   isChallengeRequest resp_new_captcha = Inl CloudflareChallengeError \<and>
   isChallengeRequest resp_jsch = Inr True \<and>
   handleCloudflareChallenges (still_world no_transport) echo_request resp_1020 (Some ''GET'')
       sample_url no_config (new_CloudScraper (still_world no_transport) default_options)
     = Some (Inl CloudflareCode1020, new_CloudScraper (still_world no_transport) default_options) \<and>
   handleCloudflareChallenges (still_world no_transport) echo_request resp_jsch (Some ''GET'')
       sample_url no_config (new_CloudScraper (still_world no_transport) default_options)
     = challengeResponse (still_world no_transport) echo_request resp_jsch no_config
         ((new_CloudScraper (still_world no_transport) default_options)\<lparr>solveDepthCnt := 1\<rparr>)"
proof -
  let ?w = "still_world no_transport"
  let ?st = "new_CloudScraper ?w default_options"
  have fb: "isFirewallBlocked resp_1020 = Inr JTrue" "isCaptchaChallenge resp_1020 = Inr JTrue"
    "isFirewallBlocked resp_new_captcha \<noteq> Inr JTrue"
    "isNewCaptchaChallenge resp_new_captcha = Inr JTrue"
    "isFirewallBlocked resp_jsch \<noteq> Inr JTrue"
    "isNewCaptchaChallenge resp_jsch \<noteq> Inr JTrue"
    "isNewIUAMChallenge resp_jsch \<noteq> Inr JTrue"
    "isIUAMChallenge resp_jsch = Inr JTrue"
    by code_simp+
  have st: "solveDepthCnt ?st < solveDepth ?st" "\<not> disableCloudflareV1 ?st"
    "solveDepthCnt ?st = 0"
    by (simp_all add: new_CloudScraper_def default_options_def num_or_def)
  have a: "isChallengeRequest resp_1020 = Inl CloudflareCode1020"
    using classification_order [of resp_1020] fb by simp
  have b: "isChallengeRequest resp_jsch = Inr True"
    using classification_order [of resp_jsch] fb by simp
  show ?thesis
    using fb st a b classification_order [of resp_new_captcha]
      classification_order [of resp_1020 _ ?st CloudflareCode1020 ?w echo_request
                               "Some ''GET''" sample_url no_config]
      classification_order [of resp_jsch _ ?st _ ?w echo_request "Some ''GET''" sample_url
                               no_config]
    by simp
qed

section \<open>The evaluators\<close>

lemma createInterpreter_stub:
  "toLowerCase name \<in> set [''js2py'', ''nodejs'', ''v8'', ''chakracore''] \<Longrightarrow>
   createInterpreter name \<noteq> NativeInterpreter"
  by (auto simp: createInterpreter_def Let_def)

text \<open>
  C5, as stated, fails: each of the four unimplemented evaluators, selected through the
  factory, returns the string \<open>'0'\<close> from \<open>solveChallenge\<close> and raises nothing.
\<close>

theorem stub_interpreters_return_placeholder_counterexample:
  "solveChallenge no_engine (createInterpreter ''js2py'') jsch_page ''example.com'' = Inr ''0'' \<and>
   solveChallenge no_engine (createInterpreter ''nodejs'') jsch_page ''example.com'' = Inr ''0'' \<and>
   solveChallenge no_engine (createInterpreter ''v8'') jsch_page ''example.com'' = Inr ''0'' \<and>
   solveChallenge no_engine (createInterpreter ''chakracore'') jsch_page ''example.com'' = Inr ''0''"
  by code_simp

text \<open>
  C5, amended. For every challenge body and domain, selecting js2py, nodejs, v8 or
  chakracore through the factory (in any letter case) and invoking \<open>solveChallenge\<close> returns
  the placeholder answer \<open>'0'\<close>; no error is raised.
\<close>

theorem stub_interpreters_return_placeholder:
  "toLowerCase name \<in> set [''js2py'', ''nodejs'', ''v8'', ''chakracore''] \<Longrightarrow>
   solveChallenge engine (createInterpreter name) body domain = Inr ''0''"
  using createInterpreter_stub [of name]
  by (cases "createInterpreter name") simp_all

theorem stub_interpreters_return_placeholder_witness:
  "toLowerCase ''V8'' \<in> set [''js2py'', ''nodejs'', ''v8'', ''chakracore''] \<and>
   solveChallenge no_engine (createInterpreter ''V8'') jsch_page ''example.com'' = Inr ''0''"
proof -
  have a: "toLowerCase ''V8'' \<in> set [''js2py'', ''nodejs'', ''v8'', ''chakracore'']"
    by code_simp
  show ?thesis using a stub_interpreters_return_placeholder [OF a] by simp
qed

section \<open>The resolver\<close>

lemma starts_with_length: "starts_with l s \<Longrightarrow> length l \<le> length s"
  by (induction l s rule: starts_with.induct) auto
lemma bt_shorter: "bt p s ops cs = Some (rest, cs') \<Longrightarrow> length rest \<le> length s"
proof (induction p s ops cs arbitrary: rest cs' rule: bt.induct)
  case (2 l r s ops cs)
  from "2.prems" have sw: "starts_with l s"
    and b: "bt r (drop (length l) s) ops cs = Some (rest, cs')"
    by (simp_all split: if_splits)
  from "2.IH" [OF sw b] show ?case by simp
next
  case (4 k r x xs ops cs)
  from "4.prems" have m: "cmatch k x" and b: "bt r xs ops cs = Some (rest, cs')"
    by (simp_all split: if_splits)
  from "4.IH" [OF m b] show ?case by simp
next
  case (6 k r x xs ops cs)
  show ?case
  proof (cases "cmatch k x")
    case True
    show ?thesis
    proof (cases "bt (Star k # r) xs ops cs")
      case None
      with True "6.prems" have "bt r (x # xs) ops cs = Some (rest, cs')" by simp
      from "6.IH"(2) [OF True None this] show ?thesis .
    next
      case (Some m)
      with True "6.prems" have "bt (Star k # r) xs ops cs = Some (rest, cs')" by simp
      from "6.IH"(1) [OF True this] show ?thesis by simp
    qed
  next
    case False
    with "6.prems" have "bt r (x # xs) ops cs = Some (rest, cs')" by simp
    from "6.IH"(3) [OF False this] show ?thesis .
  qed
next
  case (8 k r x xs ops cs)
  show ?case
  proof (cases "bt r (x # xs) ops cs")
    case None
    with "8.prems" have m: "cmatch k x" and b: "bt (StarLazy k # r) xs ops cs = Some (rest, cs')"
      by (simp_all split: if_splits)
    from "8.IH"(2) [OF None m b] show ?thesis by simp
  next
    case (Some m)
    with "8.prems" have "bt r (x # xs) ops cs = Some (rest, cs')" by simp
    from "8.IH"(1) [OF this] show ?thesis .
  qed
next
  case (10 k r x xs ops cs)
  from "10.prems" have m: "cmatch k x" and b: "bt (Star k # r) xs ops cs = Some (rest, cs')"
    by (simp_all split: if_splits)
  from "10.IH" [OF m b] show ?case by simp
next
  case (12 k r x xs ops cs)
  from "12.prems" have m: "cmatch k x" and b: "bt (StarLazy k # r) xs ops cs = Some (rest, cs')"
    by (simp_all split: if_splits)
  from "12.IH" [OF m b] show ?case by simp
next
  case (14 k r x xs ops cs)
  show ?case
  proof (cases "cmatch k x")
    case True
    show ?thesis
    proof (cases "bt r xs ops cs")
      case None
      with True "14.prems" have "bt r (x # xs) ops cs = Some (rest, cs')" by simp
      from "14.IH"(2) [OF True None this] show ?thesis .
    next
      case (Some m)
      with True "14.prems" have "bt r xs ops cs = Some (rest, cs')" by simp
      from "14.IH"(1) [OF True this] show ?thesis by simp
    qed
  next
    case False
    with "14.prems" have "bt r (x # xs) ops cs = Some (rest, cs')" by simp
    from "14.IH"(3) [OF False this] show ?thesis .
  qed
next
  case (16 l ls r s ops cs)
  show ?case
  proof (cases "starts_with l s")
    case True
    show ?thesis
    proof (cases "bt r (drop (length l) s) ops cs")
      case None
      with True "16.prems" have "bt (AltLit ls # r) s ops cs = Some (rest, cs')" by simp
      from "16.IH"(2) [OF True None this] show ?thesis .
    next
      case (Some m)
      with True "16.prems" have "bt r (drop (length l) s) ops cs = Some (rest, cs')" by simp
      from "16.IH"(1) [OF True this] show ?thesis by simp
    qed
  next
    case False
    with "16.prems" have "bt (AltLit ls # r) s ops cs = Some (rest, cs')" by simp
    from "16.IH"(3) [OF False this] show ?thesis .
  qed
next
  case (18 n r s ops cs)
  show ?case
  proof (cases "map_of ops n")
    case None
    with "18.prems" have "bt r s ops cs = Some (rest, cs')" by simp
    from "18.IH"(1) [OF None this] show ?thesis .
  next
    case (Some s0)
    with "18.prems" have "bt r s ops ((n, take (length s0 - length s) s0) # cs) = Some (rest, cs')"
      by simp
    from "18.IH"(2) [OF Some this] show ?thesis .
  qed
next
  case (17 n r s ops cs)
  from "17.prems" have "bt r s ((n, s) # ops) cs = Some (rest, cs')" by simp
  from "17.IH" [OF this] show ?case .
qed simp_all

lemma bt_Lit_progress:
  "bt (Lit (c # l) # r) s ops cs = Some (rest, cs') \<Longrightarrow> length rest < length s"
proof -
  assume a: "bt (Lit (c # l) # r) s ops cs = Some (rest, cs')"
  then have sw: "starts_with (c # l) s"
    and b: "bt r (drop (length (c # l)) s) ops cs = Some (rest, cs')"
    by (simp_all split: if_splits)
  from bt_shorter [OF b] starts_with_length [OF sw] show ?thesis by simp
qed

lemma alts_inputRegex_progress:
  "alts inputRegex s = Some (rest, cs) \<Longrightarrow> length rest < length s"
  unfolding inputRegex_def
  by (auto simp del: bt.simps split: option.splits dest: bt_Lit_progress)

lemma search_progress:
  assumes "\<And>s rest cs. alts re s = Some (rest, cs) \<Longrightarrow> length rest < length s"
  shows "search re s = Some (k, rest, cs) \<Longrightarrow> length rest < length s"
proof (induction s arbitrary: k)
  case Nil
  then show ?case using assms [of "[]"] by (auto split: option.splits)
next
  case (Cons x xs)
  show ?case
  proof (cases "alts re (x # xs)")
    case None
    with Cons.prems obtain k' where "search re xs = Some (k', rest, cs)"
      by (auto split: option.splits)
    from Cons.IH [OF this] show ?thesis by simp
  next
    case (Some m)
    with Cons.prems have "alts re (x # xs) = Some (rest, cs)" by (cases m) simp
    from assms [OF this] show ?thesis .
  qed
qed

lemma search_inputRegex_progress:
  "search inputRegex s = Some (k, rest, cs) \<Longrightarrow> length rest < length s"
  by (rule search_progress) (rule alts_inputRegex_progress)

lemma input_loop_total: "\<exists>p'. input_loop form p = Some p'"
proof (induction "length form" arbitrary: form p rule: less_induct)
  case less
  show ?case
  proof (cases "search inputRegex form")
    case None
    then show ?thesis by (subst input_loop.simps) simp
  next
    case (Some m)
    obtain k rest cs where m: "m = (k, rest, cs)" by (cases m) auto
    from Some m search_inputRegex_progress have "length rest < length form" by blast
    from less [OF this] obtain p' where "input_loop rest (input_step cs p) = Some p'" by blast
    with Some m show ?thesis by (subst input_loop.simps) simp
  qed
qed

lemma dom_input_step:
  "dom (input_step cs p) \<subseteq> dom p \<union> {''r'', ''jschl_vc'', ''pass''}"
  by (auto simp: input_step_def split: option.splits list.splits if_splits)

lemma dom_input_loop:
  "input_loop form p = Some p' \<Longrightarrow> dom p' \<subseteq> dom p \<union> {''r'', ''jschl_vc'', ''pass''}"
proof (induction "length form" arbitrary: form p rule: less_induct)
  case less
  show ?case
  proof (cases "search inputRegex form")
    case None
    with less.prems show ?thesis by (subst (asm) input_loop.simps) auto
  next
    case (Some m)
    obtain k rest cs where m: "m = (k, rest, cs)" by (cases m) auto
    from Some m search_inputRegex_progress have l: "length rest < length form" by blast
    from less.prems Some m have "input_loop rest (input_step cs p) = Some p'"
      by (subst (asm) input_loop.simps) simp
    from less.hyps [OF l this] dom_input_step [of cs p] show ?thesis by blast
  qed
qed

lemma replace_all_id: "c \<notin> set s \<Longrightarrow> replace_all (c # ps) r s = s"
proof (induction s)
  case Nil
  then show ?case by simp
next
  case (Cons a s)
  then show ?case by simp
qed

lemma unescape_no_amp: "CHR ''&'' \<notin> set s \<Longrightarrow> unescape s = s"
  by (simp add: unescape_def replace_all_id)

text \<open>
  \<open>iuamChallengeResponse\<close> always ends. When the form expression finds no match in the page
  it throws \<open>CloudflareIUAMError\<close>. Whenever it returns, the payload holds the evaluator's
  answer under \<open>jschl_answer\<close> and otherwise only keys among \<open>r\<close>, \<open>jschl_vc\<close>, \<open>pass\<close>.
\<close>

lemma iuamChallengeResponse_returned:
  "(\<exists>res. iuamChallengeResponse w body u interp = Some res) \<and>
   (search formRegex body = None \<longrightarrow>
      iuamChallengeResponse w body u interp = Some (Inl CloudflareIUAMError)) \<and>
   (iuamChallengeResponse w body u interp = Some (Inr cr) \<longrightarrow>
      (\<exists>parsedUrl answer.
         url_parse w u = Some parsedUrl \<and>
         solveChallenge (native w) (createInterpreter interp) body (hostname parsedUrl) = Inr answer \<and>
         cr_data cr ''jschl_answer'' = Some answer \<and>
         dom (cr_data cr) \<subseteq> {''jschl_answer'', ''r'', ''jschl_vc'', ''pass''}))"
proof -
  have total: "\<exists>res. iuamChallengeResponse w body u interp = Some res"
    using input_loop_total
    by (auto simp: iuamChallengeResponse_def split: option.splits prod.splits sum.splits)
       (metis option.distinct(1))
  have nomatch: "search formRegex body = None \<longrightarrow>
      iuamChallengeResponse w body u interp = Some (Inl CloudflareIUAMError)"
    by (simp add: iuamChallengeResponse_def)
  have ok: "iuamChallengeResponse w body u interp = Some (Inr cr) \<longrightarrow>
      (\<exists>parsedUrl answer.
         url_parse w u = Some parsedUrl \<and>
         solveChallenge (native w) (createInterpreter interp) body (hostname parsedUrl) = Inr answer \<and>
         cr_data cr ''jschl_answer'' = Some answer \<and>
         dom (cr_data cr) \<subseteq> {''jschl_answer'', ''r'', ''jschl_vc'', ''pass''})"
    using dom_input_loop [of _ Map.empty]
    by (auto simp: iuamChallengeResponse_def split: option.splits prod.splits sum.splits) blast+
  show ?thesis using total nomatch ok by blast
qed

text \<open>
  C8. On the sample page, whose form tag reads \<open>action="/?a=1&amp;__cf_chl_f_tk=abc" method="POST"\<close>,
  the resolver returns what the claim says: the payload holds the fields \<open>r\<close> and \<open>pass\<close> with
  the values of their inputs, the answer under \<open>jschl_answer\<close> and nothing for the input
  named \<open>x\<close>, and the URL is the scheme and host of the original URL followed by the action
  with \<open>&amp;\<close> replaced; a page without a form ends in \<open>CloudflareIUAMError\<close>. On the same page
  with no white space between the action and the attribute after it
  (\<open>action="/?a=1&amp;__cf_chl_f_tk=abc"method="POST"\<close>), which the detector classifies as a
  challenge all the same, \<open>\S+\<close> in the form expression runs over the quote that ends the
  action: the returned URL ends in \<open>abc"method="POST\<close>, and that is where the answer is sent.
\<close>

theorem iuamChallengeResponse_action_overrun:
  "map_option cr_url
     (returned (iuamChallengeResponse (still_world no_transport) jsch_page
                  ''https://example.com/'' ''js2py''))
     = Some ''https://example.com/?a=1&__cf_chl_f_tk=abc'' \<and>
   map (\<lambda>key. Option.bind
                (returned (iuamChallengeResponse (still_world no_transport) jsch_page
                             ''https://example.com/'' ''js2py''))
                (payload_at key))
       [''r'', ''jschl_vc'', ''pass'', ''jschl_answer'', ''x'']
     = [Some ''RR'', None, Some ''PP'', Some ''0'', None] \<and>
   iuamChallengeResponse (still_world no_transport) ''<p>no form here</p>''
       ''https://example.com/'' ''js2py'' = Some (Inl CloudflareIUAMError) \<and>
   isIUAMChallenge resp_unspaced = Inr JTrue \<and>
   isChallengeRequest resp_unspaced = Inr True \<and>
   map_option cr_url
     (returned (iuamChallengeResponse (still_world no_transport) unspaced_page
                  ''https://example.com/'' ''js2py''))
     = Some ''https://example.com/?a=1&__cf_chl_f_tk=abc\"method=\"POST'' \<and>
   map (\<lambda>key. Option.bind
                (returned (iuamChallengeResponse (still_world no_transport) unspaced_page
                             ''https://example.com/'' ''js2py''))
                (payload_at key))
       [''r'', ''jschl_vc'', ''pass'', ''jschl_answer'', ''x'']
     = [Some ''RR'', None, Some ''PP'', Some ''0'', None] \<and>
   map_option data
     (value_of (challengeResponse (still_world no_transport) echo_request resp_unspaced no_config
                  (new_CloudScraper (still_world no_transport) default_options)))
     = Some (Str ''https://example.com/?a=1&__cf_chl_f_tk=abc\"method=\"POST'')"
proof -
  let ?w = "still_world no_transport"
  have a: "map_option cr_url
     (returned (iuamChallengeResponse ?w jsch_page ''https://example.com/'' ''js2py''))
     = Some ''https://example.com/?a=1&__cf_chl_f_tk=abc''"
    by code_simp
  have b: "map (\<lambda>key. Option.bind
                (returned (iuamChallengeResponse ?w jsch_page ''https://example.com/'' ''js2py''))
                (payload_at key))
       [''r'', ''jschl_vc'', ''pass'', ''jschl_answer'', ''x'']
     = [Some ''RR'', None, Some ''PP'', Some ''0'', None]"
    by code_simp
  have c: "search formRegex ''<p>no form here</p>'' = None" by code_simp
  have d: "iuamChallengeResponse ?w ''<p>no form here</p>'' ''https://example.com/'' ''js2py''
             = Some (Inl CloudflareIUAMError)"
    unfolding iuamChallengeResponse_def c by simp
  have e: "isIUAMChallenge resp_unspaced = Inr JTrue" by code_simp
  have f: "isChallengeRequest resp_unspaced = Inr True" by code_simp
  have g: "map_option cr_url
     (returned (iuamChallengeResponse ?w unspaced_page ''https://example.com/'' ''js2py''))
     = Some ''https://example.com/?a=1&__cf_chl_f_tk=abc\"method=\"POST''"
    by code_simp
  have h: "map (\<lambda>key. Option.bind
                (returned (iuamChallengeResponse ?w unspaced_page ''https://example.com/'' ''js2py''))
                (payload_at key))
       [''r'', ''jschl_vc'', ''pass'', ''jschl_answer'', ''x'']
     = [Some ''RR'', None, Some ''PP'', Some ''0'', None]"
    by code_simp
  have i: "map_option data
     (value_of (challengeResponse ?w echo_request resp_unspaced no_config
                  (new_CloudScraper ?w default_options)))
     = Some (Str ''https://example.com/?a=1&__cf_chl_f_tk=abc\"method=\"POST'')"
    by code_simp
  show ?thesis using a b d e f g h i by simp
qed

section \<open>After the resubmission\<close>

text \<open>
  What \<open>challengeResponse\<close> does with the response to the resubmitted answer: status 400
  throws \<open>CloudflareSolveError\<close>; without a Location header the response is returned;
  otherwise the location is followed with the method of the challenged request and a Referer
  set to the URL of the resubmission, as it stands when it starts with "http" and resolved
  against the submission URL when it does not.
\<close>

lemma challengeResponse_after_submit:
  assumes "holds (isCaptchaChallenge resp) = Inr False"
    and "extract_delay resp st = Inr sta"
    and "responseData resp = Inr page"
    and "c_url (config resp) = Some u"
    and "iuamChallengeResponse w page u (interpreter sta) = Some (Inr submitUrl)"
    and "url_parse w u = Some parsedUrl"
    and "self (Some ''POST'') (cr_url submitUrl) (challengeConfig cfg resp submitUrl parsedUrl) sta
           = Some (Inr challengeResp, stb)"
  shows "(status challengeResp = 400 \<longrightarrow>
            challengeResponse w self resp cfg st = Some (Inl CloudflareSolveError, stb)) \<and>
         (status challengeResp \<noteq> 400 \<and> \<not> header_truthy (headers challengeResp ''location'') \<longrightarrow>
            challengeResponse w self resp cfg st = Some (Inr challengeResp, stb)) \<and>
         (status challengeResp \<noteq> 400 \<and> headers challengeResp ''location'' = Some (HStr l)
            \<and> l \<noteq> [] \<and> starts_with ''http'' l \<longrightarrow>
            challengeResponse w self resp cfg st
              = self (c_method (config resp)) l (redirectConfig cfg challengeResp) stb) \<and>
         (status challengeResp \<noteq> 400 \<and> headers challengeResp ''location'' = Some (HStr l)
            \<and> l \<noteq> [] \<and> \<not> starts_with ''http'' l
            \<and> url_resolve w l (cr_url submitUrl) = Some target \<longrightarrow>
            challengeResponse w self resp cfg st
              = self (c_method (config resp)) target (redirectConfig cfg challengeResp) stb) \<and>
         c_headers (redirectConfig cfg challengeResp) ''Referer'' = c_url (config challengeResp)"
  using assms
  by (simp add: challengeResponse_def after_submit_def header_truthy_def redirectConfig_def)

text \<open>
  C7. A relative location is resolved against the submission URL (under the comment "Build
  the redirect URL"): \<open>docs/next\<close> and \<open>/next\<close> are followed at
  \<open>https://example.com/docs/next\<close> and \<open>https://example.com/next\<close>, with the method of the
  challenged request. The relative location \<open>httpdocs/next\<close> is not: the test
  \<open>location.startsWith('http')\<close> takes it for an absolute URL, and the follow-up request is
  made to \<open>httpdocs/next\<close> as it stands.
\<close>

theorem relative_location_starting_with_http:
  "relative_reference ''docs/next'' \<and>
   relative_reference ''httpdocs/next'' \<and>
   map_option cr_url
     (returned (iuamChallengeResponse resolving_world jsch_page ''https://example.com/'' ''js2py''))
     = Some ''https://example.com/?a=1&__cf_chl_f_tk=abc'' \<and>
   url_resolve resolving_world ''docs/next'' ''https://example.com/?a=1&__cf_chl_f_tk=abc''
     = Some ''https://example.com/docs/next'' \<and>
   url_resolve resolving_world ''httpdocs/next'' ''https://example.com/?a=1&__cf_chl_f_tk=abc''
     = Some ''https://example.com/httpdocs/next'' \<and>
   map_option data
     (value_of (challengeResponse resolving_world (redirecting_request ''docs/next'') resp_jsch
                  no_config (new_CloudScraper resolving_world default_options)))
     = Some (Str ''https://example.com/docs/next'') \<and>
   map_option data
     (value_of (challengeResponse resolving_world (redirecting_request ''/next'') resp_jsch
                  no_config (new_CloudScraper resolving_world default_options)))
     = Some (Str ''https://example.com/next'') \<and>
   map_option data
     (value_of (challengeResponse resolving_world (redirecting_request ''httpdocs/next'') resp_jsch
                  no_config (new_CloudScraper resolving_world default_options)))
     = Some (Str ''httpdocs/next'') \<and>
   Option.bind
     (value_of (challengeResponse resolving_world (redirecting_request ''httpdocs/next'') resp_jsch
                  no_config (new_CloudScraper resolving_world default_options)))
     (c_method \<circ> config) = Some ''GET'' \<and>
   Option.bind
     (value_of (challengeResponse resolving_world (redirecting_request ''httpdocs/next'') resp_jsch
                  no_config (new_CloudScraper resolving_world default_options)))
     (\<lambda>r. c_headers (config r) ''Referer'') = Some ''https://example.com/?a=1&__cf_chl_f_tk=abc''"
  by code_simp

section \<open>The cookie string\<close>




section \<open>The orchestrator\<close>

lemma throttle_passes:
  "currentConcurrentRequests st < maxConcurrentRequests st \<Longrightarrow>
   applyRequestThrottling w (Suc n) st
     = Some (st\<lparr>ticks := ticks st + 2, lastRequestTime := clock w (Suc (ticks st))\<rparr>)"
  by (simp add: applyRequestThrottling_def now_def)

lemma shouldRefreshSession_snd: "snd (shouldRefreshSession w st) = st\<lparr>ticks := Suc (ticks st)\<rparr>"
  by (simp add: shouldRefreshSession_def now_def)

lemma refreshSession_fields:
  "disableCloudflareV1 (snd (refreshSession w u st)) = disableCloudflareV1 st"
  "delay (snd (refreshSession w u st)) = delay st"
  "captcha_provider (snd (refreshSession w u st)) = captcha_provider st"
  "doubleDown (snd (refreshSession w u st)) = doubleDown st"
  "interpreter (snd (refreshSession w u st)) = interpreter st"
  "solveDepthCnt (snd (refreshSession w u st)) = solveDepthCnt st"
  "solveDepth (snd (refreshSession w u st)) = solveDepth st"
  "last403Time (snd (refreshSession w u st)) = last403Time st"
  "autoRefreshOn403 (snd (refreshSession w u st)) = autoRefreshOn403 st"
  "max403Retries (snd (refreshSession w u st)) = max403Retries st"
  "retryCount403 (snd (refreshSession w u st)) = retryCount403 st"
  "in403RetryFlag (snd (refreshSession w u st)) = in403RetryFlag st"
  "maxConcurrentRequests (snd (refreshSession w u st)) = maxConcurrentRequests st"
  "currentConcurrentRequests (snd (refreshSession w u st)) = currentConcurrentRequests st"
  "enableStealth (snd (refreshSession w u st)) = enableStealth st"
  "filter is_dispatch (calls (snd (refreshSession w u st))) = filter is_dispatch (calls st)"
  by (simp_all add: refreshSession_def now_def Let_def split: option.splits sum.splits)

lemma pre_refresh_fields:
  "disableCloudflareV1 (pre_refresh w u st) = disableCloudflareV1 st"
  "delay (pre_refresh w u st) = delay st"
  "captcha_provider (pre_refresh w u st) = captcha_provider st"
  "doubleDown (pre_refresh w u st) = doubleDown st"
  "interpreter (pre_refresh w u st) = interpreter st"
  "solveDepthCnt (pre_refresh w u st) = solveDepthCnt st"
  "solveDepth (pre_refresh w u st) = solveDepth st"
  "last403Time (pre_refresh w u st) = last403Time st"
  "autoRefreshOn403 (pre_refresh w u st) = autoRefreshOn403 st"
  "max403Retries (pre_refresh w u st) = max403Retries st"
  "retryCount403 (pre_refresh w u st) = retryCount403 st"
  "in403RetryFlag (pre_refresh w u st) = in403RetryFlag st"
  "maxConcurrentRequests (pre_refresh w u st) = maxConcurrentRequests st"
  "currentConcurrentRequests (pre_refresh w u st) = currentConcurrentRequests st"
  "enableStealth (pre_refresh w u st) = enableStealth st"
  "filter is_dispatch (calls (pre_refresh w u st)) = filter is_dispatch (calls st)"
  by (simp_all add: pre_refresh_def shouldRefreshSession_def now_def refreshSession_fields)

lemma dispatched_fields:
  "disableCloudflareV1 (dispatched w m u cfg st) = disableCloudflareV1 st"
  "delay (dispatched w m u cfg st) = delay st"
  "captcha_provider (dispatched w m u cfg st) = captcha_provider st"
  "doubleDown (dispatched w m u cfg st) = doubleDown st"
  "interpreter (dispatched w m u cfg st) = interpreter st"
  "solveDepthCnt (dispatched w m u cfg st) = solveDepthCnt st"
  "solveDepth (dispatched w m u cfg st) = solveDepth st"
  "last403Time (dispatched w m u cfg st) = last403Time st"
  "autoRefreshOn403 (dispatched w m u cfg st) = autoRefreshOn403 st"
  "max403Retries (dispatched w m u cfg st) = max403Retries st"
  "retryCount403 (dispatched w m u cfg st) = retryCount403 st"
  "in403RetryFlag (dispatched w m u cfg st) = in403RetryFlag st"
  "maxConcurrentRequests (dispatched w m u cfg st) = maxConcurrentRequests st"
  "currentConcurrentRequests (dispatched w m u cfg st) = currentConcurrentRequests st + 1"
  "enableStealth (dispatched w m u cfg st) = enableStealth st"
  "dispatches (dispatched w m u cfg st) = Suc (dispatches st)"
  by (simp_all add: dispatched_def pre_dispatch_def pre_refresh_fields dispatches_def)

text \<open>Without hooks and with a free slot, a request is what follows its dispatch.\<close>

lemma request_body_dispatch:
  assumes "requestPreHook w = None" and "requestPostHook w = None"
    and "currentConcurrentRequests st < maxConcurrentRequests st"
  shows "request_body w (Suc n) self meth u cfg st =
           (case transport w (length (calls (pre_dispatch w u st)))
                   (Dispatch meth u (pre_config w meth u cfg st)) of
              Inl e \<Rightarrow> Some (Inl e, release (dispatched w meth u cfg st))
            | Inr resp \<Rightarrow>
                (case handleCloudflareChallenges w self resp meth u
                        (pre_config w meth u cfg st) (dispatched w meth u cfg st) of
                   None \<Rightarrow> None
                 | Some (Inl e, st5) \<Rightarrow> Some (Inl e, release st5)
                 | Some (Inr r, st5) \<Rightarrow> Some (Inr r, st5)))"
  using assms
  by (simp add: request_body_def throttle_passes performRequest_def pre_dispatch_def pre_config_def
        pre_refresh_def dispatched_def Let_def
      split: sum.splits prod.splits bool.splits option.splits)


lemma probes_fields:
  "probes (st\<lparr>calls := calls st @ [Probe b]\<rparr>) = Suc (probes st)"
  "probes (st\<lparr>calls := calls st @ [Dispatch m u cfg]\<rparr>) = probes st"
  by (simp_all add: probes_def)

lemma session_fresh_pre_refresh:
  assumes "session_fresh w st" and "currentConcurrentRequests st < maxConcurrentRequests st"
  shows "pre_refresh w u st
           = st\<lparr>ticks := ticks st + 3, lastRequestTime := clock w (Suc (ticks st))\<rparr>"
  using assms
  by (auto simp: session_fresh_def throttle_passes [of st w 0, simplified] pre_refresh_def
        shouldRefreshSession_def now_def split: if_splits)

lemma refresh_fails_on_403:
  assumes "url_parse w u = Some parsedUrl"
    and "\<forall>n c. \<exists>r. transport w n c = Inr r \<and> status r = 403 \<and> isChallengeRequest r = Inr False"
  shows "refreshSession w u st
           = (False, st\<lparr>ticks := Suc (ticks st), sessionStartTime := clock w (ticks st),
                         requestCount := 0,
                         calls := calls st @ [Probe (protocol parsedUrl @ ''//'' @ hostname parsedUrl)]\<rparr>)"
proof -
  from assms(2) obtain r where
    "transport w (length (calls st)) (Probe (protocol parsedUrl @ ''//'' @ hostname parsedUrl)) = Inr r"
    and "status r = 403"
    by blast
  then show ?thesis using assms(1) by (simp add: refreshSession_def now_def Let_def)
qed

lemma all_403_one_refresh:
  assumes "requestPreHook w = None" and "requestPostHook w = None"
    and t403: "\<forall>n c. \<exists>r. transport w n c = Inr r \<and> status r = 403 \<and> isChallengeRequest r = Inr False"
    and slot: "currentConcurrentRequests st < maxConcurrentRequests st"
    and nonneg: "0 \<le> currentConcurrentRequests st"
    and depth: "solveDepthCnt st < solveDepth st"
    and auto403: "autoRefreshOn403 st" and max2: "max403Retries st = 2"
    and zero: "retryCount403 st = 0"
    and fresh: "session_fresh w st"
    and parse: "url_parse w u = Some parsedUrl"
  shows "\<exists>resp st'.
           transport w (length (calls st)) (Dispatch meth u (pre_config w meth u cfg st)) = Inr resp \<and>
           request (Suc (Suc n)) w meth u cfg st = Some (Inr resp, st') \<and>
           probes st' = Suc (probes st) \<and> dispatches st' = Suc (dispatches st) \<and>
           retryCount403 st' = 1 \<and>
           currentConcurrentRequests st' = currentConcurrentRequests st"
proof -
  let ?cfg = "pre_config w meth u cfg st"
  let ?d = "dispatched w meth u cfg st"
  let ?self = "request (Suc n) w"
  have pr: "pre_refresh w u st
              = st\<lparr>ticks := ticks st + 3, lastRequestTime := clock w (Suc (ticks st))\<rparr>"
    by (rule session_fresh_pre_refresh [OF fresh slot])
  have len: "length (calls (pre_dispatch w u st)) = length (calls st)"
    by (simp add: pre_dispatch_def pr)
  from t403 obtain resp where tr: "transport w (length (calls st)) (Dispatch meth u ?cfg) = Inr resp"
    and s403: "status resp = 403" and nc: "isChallengeRequest resp = Inr False"
    by blast
  define d1 where "d1 = (if \<not> header_truthy (headers resp ''location'')
                          then ?d\<lparr>solveDepthCnt := 0\<rparr> else ?d)"
  have h1: "handleCloudflareChallenges w ?self resp meth u ?cfg ?d
              = handle403Error w ?self resp meth u ?cfg d1"
    using depth s403 nc auto403
    by (simp add: handleCloudflareChallenges_def dispatched_fields d1_def Let_def)
  have d1f: "retryCount403 d1 = 0" "max403Retries d1 = 2"
    "currentConcurrentRequests d1 = currentConcurrentRequests st + 1"
    "probes d1 = probes st" "dispatches d1 = Suc (dispatches st)"
    using zero max2
    by (simp_all add: d1_def dispatched_fields)
       (simp_all add: dispatched_def pre_dispatch_def pr probes_def dispatches_def)
  define d2 where "d2 = release (snd (refreshSession w u
                          (d1\<lparr>retryCount403 := 1, ticks := Suc (ticks d1),
                               last403Time := clock w (ticks d1)\<rparr>)))"
  have h2: "handle403Error w ?self resp meth u ?cfg d1 = Some (Inr resp, d2)"
    using d1f refresh_fails_on_403 [OF parse t403]
    by (simp add: handle403Error_def now_def d2_def)
  have d2f: "retryCount403 d2 = 1" "currentConcurrentRequests d2 = currentConcurrentRequests st"
    "probes d2 = Suc (probes st)" "dispatches d2 = Suc (dispatches st)"
    using d1f nonneg
    by (simp_all add: d2_def refresh_fails_on_403 [OF parse t403] release_def probes_def
          dispatches_def)
  have "request (Suc (Suc n)) w meth u cfg st = Some (Inr resp, d2)"
    using tr h1 h2 len
    by (simp add: request_body_dispatch [OF assms(1) assms(2) slot])
  with tr d2f show ?thesis by blast
qed

lemma extract_delay_state:
  "extract_delay r st = Inr st1 \<Longrightarrow> \<exists>d. st1 = st\<lparr>delay := d\<rparr>"
proof (cases "delay st = None \<or> delay st = Some 0")
  case True
  assume a: "extract_delay r st = Inr st1"
  show ?thesis
  proof (cases "responseData r")
    case (Inl e)
    with a True show ?thesis by (simp add: extract_delay_def)
  next
    case (Inr page)
    show ?thesis
    proof (cases "match1 delayRegex page")
      case None
      with a True Inr have "st1 = st" by (simp add: extract_delay_def)
      then have "st1 = st\<lparr>delay := delay st\<rparr>" by simp
      then show ?thesis by blast
    next
      case (Some ds)
      show ?thesis
      proof (cases ds)
        case Nil
        with a True Inr Some have "st1 = st" by (simp add: extract_delay_def)
        then have "st1 = st\<lparr>delay := delay st\<rparr>" by simp
        then show ?thesis by blast
      next
        case (Cons x xs)
        with a True Inr Some show ?thesis by (auto simp: extract_delay_def)
      qed
    qed
  qed
next
  case False
  assume "extract_delay r st = Inr st1"
  with False have "st1 = st" by (auto simp: extract_delay_def split: if_splits)
  then have "st1 = st\<lparr>delay := delay st\<rparr>" by simp
  then show ?thesis by blast
qed

lemma extract_delay_ok:
  "responseData r = Inr page \<Longrightarrow> \<exists>st1. extract_delay r st = Inr st1"
  by (simp add: extract_delay_def split: option.splits list.splits)

lemma iuam_parses:
  "iuamChallengeResponse w page u interp = Some (Inr cr) \<Longrightarrow> \<exists>p. url_parse w u = Some p"
  by (auto simp: iuamChallengeResponse_def split: option.splits prod.splits sum.splits)

text \<open>On a challenge that can be resolved, the answer is sent through the client.\<close>

lemma challengeResponse_solvable:
  assumes "solvable w (interpreter st) r"
  shows "\<exists>d cr p.
           challengeResponse w self r cfg st =
             (case self (Some ''POST'') (cr_url cr) (challengeConfig cfg r cr p) (st\<lparr>delay := d\<rparr>) of
                None \<Rightarrow> None
              | Some (Inl e, st2) \<Rightarrow> Some (Inl e, st2)
              | Some (Inr challengeResp, st2) \<Rightarrow> after_submit w self r cfg cr challengeResp st2)"
proof -
  from assms have nc: "holds (isCaptchaChallenge r) = Inr False" by (simp add: solvable_def)
  from assms obtain page where rd: "responseData r = Inr page"
    by (cases "responseData r") (auto simp: solvable_def)
  from assms rd obtain u where cu: "c_url (config r) = Some u"
    by (cases "c_url (config r)") (auto simp: solvable_def)
  from assms rd cu obtain res where iu0: "iuamChallengeResponse w page u (interpreter st) = Some res"
    by (cases "iuamChallengeResponse w page u (interpreter st)") (auto simp: solvable_def)
  from assms rd cu iu0 obtain cr where "res = Inr cr"
    by (cases res) (auto simp: solvable_def)
  with iu0 have iu: "iuamChallengeResponse w page u (interpreter st) = Some (Inr cr)" by simp
  from extract_delay_ok [OF rd] obtain st1 where ed: "extract_delay r st = Inr st1" by blast
  from extract_delay_state [OF ed] obtain d where st1: "st1 = st\<lparr>delay := d\<rparr>" by blast
  from iuam_parses [OF iu] obtain p where up: "url_parse w u = Some p" by blast
  have "interpreter st1 = interpreter st" by (simp add: st1)
  with nc rd cu iu ed up st1 have
    "challengeResponse w self r cfg st =
       (case self (Some ''POST'') (cr_url cr) (challengeConfig cfg r cr p) (st\<lparr>delay := d\<rparr>) of
          None \<Rightarrow> None
        | Some (Inl e, st2) \<Rightarrow> Some (Inl e, st2)
        | Some (Inr challengeResp, st2) \<Rightarrow> after_submit w self r cfg cr challengeResp st2)"
    by (simp add: challengeResponse_def)
  then show ?thesis by blast
qed

lemma solvable_classified: "solvable w i r \<Longrightarrow> isChallengeRequest r = Inr True"
  by (simp add: solvable_def)

lemma loop_aux:
  assumes hooks: "requestPreHook w = None" "requestPostHook w = None"
    and T: "\<forall>n c. \<exists>r. transport w n c = Inr r \<and> solvable w i r"
  shows "interpreter st = i \<Longrightarrow> \<not> disableCloudflareV1 st \<Longrightarrow>
         solveDepthCnt st + int k = solveDepth st \<Longrightarrow>
         0 \<le> currentConcurrentRequests st \<Longrightarrow>
         currentConcurrentRequests st + int k < maxConcurrentRequests st \<Longrightarrow>
         \<exists>st'. request (Suc (Suc (k + n))) w meth u cfg st
                 = Some (Inl (CloudflareLoopProtection (solveDepth st)), st') \<and>
               dispatches st' = Suc (dispatches st + k) \<and>
               currentConcurrentRequests st' = currentConcurrentRequests st \<and>
               solveDepth st' = solveDepth st"
proof (induction k arbitrary: st meth u cfg)
  case 0
  let ?cfg = "pre_config w meth u cfg st"
  let ?d = "dispatched w meth u cfg st"
  from "0.prems" have slot: "currentConcurrentRequests st < maxConcurrentRequests st" by simp
  from T obtain r where tr: "transport w (length (calls (pre_dispatch w u st))) (Dispatch meth u ?cfg) = Inr r"
    by blast
  have h: "handleCloudflareChallenges w (request (Suc n) w) r meth u ?cfg ?d
             = Some (Inl (CloudflareLoopProtection (solveDepth st)), ?d\<lparr>solveDepthCnt := 0\<rparr>)"
    using "0.prems" by (simp add: handleCloudflareChallenges_def dispatched_fields)
  have "request (Suc (Suc (0 + n))) w meth u cfg st
          = Some (Inl (CloudflareLoopProtection (solveDepth st)), release (?d\<lparr>solveDepthCnt := 0\<rparr>))"
    using tr h by (simp add: request_body_dispatch [OF hooks slot])
  moreover have "dispatches (release (?d\<lparr>solveDepthCnt := 0\<rparr>)) = Suc (dispatches st + 0)"
    using dispatched_fields(16) [of w meth u cfg st]
    by (simp add: release_def dispatches_def)
  moreover have "currentConcurrentRequests (release (?d\<lparr>solveDepthCnt := 0\<rparr>))
                   = currentConcurrentRequests st"
    using "0.prems" by (simp add: release_def dispatched_fields)
  moreover have "solveDepth (release (?d\<lparr>solveDepthCnt := 0\<rparr>)) = solveDepth st"
    by (simp add: release_def dispatched_fields)
  ultimately show ?case by blast
next
  case (Suc k)
  let ?cfg = "pre_config w meth u cfg st"
  let ?d = "dispatched w meth u cfg st"
  let ?self = "request (Suc (Suc (k + n))) w"
  from Suc.prems have slot: "currentConcurrentRequests st < maxConcurrentRequests st" by simp
  from T obtain r where tr: "transport w (length (calls (pre_dispatch w u st))) (Dispatch meth u ?cfg) = Inr r"
    and sv: "solvable w i r"
    by blast
  let ?d1 = "?d\<lparr>solveDepthCnt := solveDepthCnt ?d + 1\<rparr>"
  have h: "handleCloudflareChallenges w ?self r meth u ?cfg ?d
             = challengeResponse w ?self r ?cfg ?d1"
    using Suc.prems solvable_classified [OF sv]
    by (simp add: handleCloudflareChallenges_def dispatched_fields)
  have "solvable w (interpreter ?d1) r" using sv Suc.prems by (simp add: dispatched_fields)
  from challengeResponse_solvable [OF this, of ?self ?cfg] obtain d cr p where
    c: "challengeResponse w ?self r ?cfg ?d1 =
          (case ?self (Some ''POST'') (cr_url cr) (challengeConfig ?cfg r cr p) (?d1\<lparr>delay := d\<rparr>) of
             None \<Rightarrow> None
           | Some (Inl e, st2) \<Rightarrow> Some (Inl e, st2)
           | Some (Inr challengeResp, st2) \<Rightarrow> after_submit w ?self r ?cfg cr challengeResp st2)"
    by blast
  let ?s1 = "?d1\<lparr>delay := d\<rparr>"
  have p1: "interpreter ?s1 = i" "\<not> disableCloudflareV1 ?s1"
    "solveDepthCnt ?s1 + int k = solveDepth ?s1"
    "0 \<le> currentConcurrentRequests ?s1"
    "currentConcurrentRequests ?s1 + int k < maxConcurrentRequests ?s1"
    using Suc.prems by (simp_all add: dispatched_fields)
  from Suc.IH [OF p1, of "Some ''POST''" "cr_url cr" "challengeConfig ?cfg r cr p"]
  obtain st'' where
    r1: "?self (Some ''POST'') (cr_url cr) (challengeConfig ?cfg r cr p) ?s1
           = Some (Inl (CloudflareLoopProtection (solveDepth ?s1)), st'')"
    and r2: "dispatches st'' = Suc (dispatches ?s1 + k)"
    and r3: "currentConcurrentRequests st'' = currentConcurrentRequests ?s1"
    and r4: "solveDepth st'' = solveDepth ?s1"
    by blast
  have sd: "solveDepth ?s1 = solveDepth st" by (simp add: dispatched_fields)
  have "request (Suc (Suc (Suc k + n))) w meth u cfg st
          = Some (Inl (CloudflareLoopProtection (solveDepth st)), release st'')"
    using tr h c r1 sd by (simp add: request_body_dispatch [OF hooks slot])
  moreover have "dispatches (release st'') = Suc (dispatches st + Suc k)"
    using r2 dispatched_fields(16) [of w meth u cfg st]
    by (simp add: release_def dispatches_def)
  moreover have "currentConcurrentRequests (release st'') = currentConcurrentRequests st"
    using r3 Suc.prems by (simp add: release_def dispatched_fields)
  moreover have "solveDepth (release st'') = solveDepth st"
    using r4 sd by (simp add: release_def)
  ultimately show ?case by blast
qed

lemma throttle_blocks:
  "maxConcurrentRequests st \<le> currentConcurrentRequests st \<Longrightarrow> throttle_wait n st = None"
  by (induction n) simp_all

lemma request_blocks:
  "maxConcurrentRequests st \<le> currentConcurrentRequests st \<Longrightarrow>
   request n w meth u cfg st = None"
  by (cases n) (simp_all add: request_body_def applyRequestThrottling_def now_def throttle_blocks)

text \<open>
  A request that meets a resolvable challenge while it holds the last free slot never ends:
  the resubmission waits for a slot that only the waiting request could free.
\<close>

lemma resubmission_never_returns:
  assumes hooks: "requestPreHook w = None" "requestPostHook w = None"
    and T: "\<forall>n c. \<exists>r. transport w n c = Inr r \<and> solvable w (interpreter st) r"
    and on: "\<not> disableCloudflareV1 st" and depth: "solveDepthCnt st < solveDepth st"
    and last: "currentConcurrentRequests st + 1 = maxConcurrentRequests st"
  shows "request n w meth u cfg st = None"
proof (cases n)
  case 0
  then show ?thesis by simp
next
  case (Suc n1)
  show ?thesis
  proof (cases n1)
    case 0
    with Suc show ?thesis
      by (simp add: request_body_def applyRequestThrottling_def now_def)
  next
    case (Suc n2)
    let ?cfg = "pre_config w meth u cfg st"
    let ?d = "dispatched w meth u cfg st"
    let ?self = "request (Suc n2) w"
    from last have slot: "currentConcurrentRequests st < maxConcurrentRequests st" by simp
    from T obtain r where
      tr: "transport w (length (calls (pre_dispatch w u st))) (Dispatch meth u ?cfg) = Inr r"
      and sv: "solvable w (interpreter st) r"
      by blast
    let ?d1 = "?d\<lparr>solveDepthCnt := solveDepthCnt ?d + 1\<rparr>"
    have h: "handleCloudflareChallenges w ?self r meth u ?cfg ?d
               = challengeResponse w ?self r ?cfg ?d1"
      using on depth solvable_classified [OF sv]
      by (simp add: handleCloudflareChallenges_def dispatched_fields)
    have "solvable w (interpreter ?d1) r" using sv by (simp add: dispatched_fields)
    from challengeResponse_solvable [OF this, of ?self ?cfg] obtain d cr p where
      c: "challengeResponse w ?self r ?cfg ?d1 =
            (case ?self (Some ''POST'') (cr_url cr) (challengeConfig ?cfg r cr p) (?d1\<lparr>delay := d\<rparr>) of
               None \<Rightarrow> None
             | Some (Inl e, st2) \<Rightarrow> Some (Inl e, st2)
             | Some (Inr challengeResp, st2) \<Rightarrow> after_submit w ?self r ?cfg cr challengeResp st2)"
      by blast
    have "maxConcurrentRequests (?d1\<lparr>delay := d\<rparr>) \<le> currentConcurrentRequests (?d1\<lparr>delay := d\<rparr>)"
      using last by (simp add: dispatched_fields)
    from request_blocks [OF this]
    have "?self (Some ''POST'') (cr_url cr) (challengeConfig ?cfg r cr p) (?d1\<lparr>delay := d\<rparr>) = None" .
    with tr h c have "request_body w (Suc n2) ?self meth u cfg st = None"
      by (simp add: request_body_dispatch [OF hooks slot])
    with \<open>n = Suc n1\<close> \<open>n1 = Suc n2\<close> show ?thesis by simp
  qed
qed

lemma classification_reset_rule:
  assumes "solveDepthCnt st < solveDepth st"
    and "disableCloudflareV1 st \<or> isChallengeRequest resp = Inr False"
    and "\<not> (status resp = 403 \<and> autoRefreshOn403 st)"
  shows "\<exists>st'. handleCloudflareChallenges w self resp meth u cfg st = Some (Inr resp, st') \<and>
               retryCount403 st' =
                 (if status resp = 200 \<and> \<not> header_truthy (headers resp ''location'')
                     \<and> \<not> in403RetryFlag st
                  then 0 else retryCount403 st)"
  using assms
  by (auto simp: handleCloudflareChallenges_def Let_def release_def)

text \<open>
  C2, as stated, fails: a response can be classified as a legacy JS challenge while its form
  cannot be extracted; the first resolution attempt then ends the request with a
  \<open>CloudflareIUAMError\<close>, after one dispatch.
\<close>

theorem loop_protection_counterexample:
  "isChallengeRequest (cloudflare_response 503 broken_page) = Inr True \<and>
   isIUAMChallenge (cloudflare_response 503 broken_page) = Inr JTrue \<and>
   error_of (request 7 (still_world (always (cloudflare_response 503 broken_page))) (Some ''GET'')
               sample_url no_config
               (new_CloudScraper (still_world (always (cloudflare_response 503 broken_page)))
                  (with_slots 4)))
     = Some CloudflareIUAMError \<and>
   map_option dispatches
     (state_of (request 7 (still_world (always (cloudflare_response 503 broken_page))) (Some ''GET'')
                  sample_url no_config
                  (new_CloudScraper (still_world (always (cloudflare_response 503 broken_page)))
                     (with_slots 4))))
     = Some 1"
  by code_simp

text \<open>
  C2, amended. When every dispatched response is a legacy JS challenge that the resolver can
  answer, no hook is set, version 1 handling is on, the loop counter is 0 and the in-flight
  ceiling leaves room for the nested resubmissions (in-flight count plus \<open>solveDepth\<close> below
  the ceiling), one logical request makes exactly \<open>solveDepth\<close> resubmissions after its first
  dispatch and then throws \<open>CloudflareLoopProtection\<close> carrying \<open>solveDepth\<close>; the in-flight
  count is back at its value before the call.
\<close>

theorem loop_protection_after_solveDepth:
  assumes "requestPreHook w = None" and "requestPostHook w = None"
    and "\<forall>n c. \<exists>r. transport w n c = Inr r \<and> solvable w (interpreter st) r"
    and "\<not> disableCloudflareV1 st"
    and "solveDepthCnt st = 0" and "solveDepth st = int k"
    and "0 \<le> currentConcurrentRequests st"
    and "currentConcurrentRequests st + solveDepth st < maxConcurrentRequests st"
  shows "\<exists>st'. request (Suc (Suc (k + n))) w meth u cfg st
                 = Some (Inl (CloudflareLoopProtection (solveDepth st)), st') \<and>
               dispatches st' = dispatches st + 1 + k \<and>
               currentConcurrentRequests st' = currentConcurrentRequests st"
proof -
  have a: "interpreter st = interpreter st" by simp
  have b: "solveDepthCnt st + int k = solveDepth st" using assms(5,6) by simp
  have c: "currentConcurrentRequests st + int k < maxConcurrentRequests st"
    using assms(6,8) by simp
  from loop_aux [OF assms(1) assms(2) assms(3) a assms(4) b assms(7) c, of n meth u cfg]
  show ?thesis by auto
qed

theorem loop_protection_after_solveDepth_witness:
  "error_of (request 5 (still_world (always resp_jsch)) (Some ''GET'') sample_url no_config
               (new_CloudScraper (still_world (always resp_jsch)) (with_slots 4)))
     = Some (CloudflareLoopProtection 3) \<and>
   map_option dispatches
     (state_of (request 5 (still_world (always resp_jsch)) (Some ''GET'') sample_url no_config
                  (new_CloudScraper (still_world (always resp_jsch)) (with_slots 4))))
     = Some 4"
proof -
  let ?w = "still_world (always resp_jsch)"
  let ?st = "new_CloudScraper ?w (with_slots 4)"
  have h1: "requestPreHook ?w = None" and h2: "requestPostHook ?w = None"
    by (simp_all add: still_world_def)
  have i: "interpreter ?st = ''js2py''"
    by (simp add: new_CloudScraper_def with_slots_def default_options_def)
  have sv: "solvable ?w ''js2py'' resp_jsch" by code_simp
  have h3: "\<forall>n c. \<exists>r. transport ?w n c = Inr r \<and> solvable ?w (interpreter ?st) r"
    using sv by (simp add: i) (simp add: still_world_def always_def)
  have h4: "\<not> disableCloudflareV1 ?st" and h5: "solveDepthCnt ?st = 0"
    and h6: "solveDepth ?st = int 3" and h7: "0 \<le> currentConcurrentRequests ?st"
    and h8: "currentConcurrentRequests ?st + solveDepth ?st < maxConcurrentRequests ?st"
    and d0: "dispatches ?st = 0"
    by (simp_all add: new_CloudScraper_def with_slots_def default_options_def num_or_def
          dispatches_def)
  from loop_protection_after_solveDepth [OF h1 h2 h3 h4 h5 h6 h7 h8, of 0 "Some ''GET''" sample_url no_config]
  obtain st' where
    "request 5 ?w (Some ''GET'') sample_url no_config ?st
       = Some (Inl (CloudflareLoopProtection (solveDepth ?st)), st')"
    and "dispatches st' = dispatches ?st + 1 + 3"
    by (auto simp: numeral_eq_Suc)
  then show ?thesis using h6 d0 by (simp add: error_of_def state_of_def)
qed

text \<open>
  C3, as stated, fails: when the probe of the refresh is answered with 403 too, the refresh
  fails at the first attempt and the 403 response is returned after one refresh attempt, not
  two.
\<close>

theorem retry_403_counterexample:
  "map_option status
     (value_of (request 5 (still_world (always resp_forbidden)) (Some ''GET'') sample_url no_config
                  (new_CloudScraper (still_world (always resp_forbidden)) two_retries)))
     = Some 403 \<and>
   map_option probes
     (state_of (request 5 (still_world (always resp_forbidden)) (Some ''GET'') sample_url no_config
                  (new_CloudScraper (still_world (always resp_forbidden)) two_retries)))
     = Some 1 \<and>
   map_option retryCount403
     (state_of (request 5 (still_world (always resp_forbidden)) (Some ''GET'') sample_url no_config
                  (new_CloudScraper (still_world (always resp_forbidden)) two_retries)))
     = Some 1"
  by code_simp

text \<open>
  C3, amended. With \<open>max403Retries = 2\<close>, auto-refresh on, a fresh session, a free slot and
  no hooks, and a transport that answers every call (the refresh probe included) with a
  status 403 that is no challenge, one logical request makes one dispatch and exactly one
  refresh attempt, returns the transport's 403 response unchanged, and leaves the retry
  counter, 0 before, at 1. In classification the retry counter is set to 0 exactly when the
  response has status 200, carries no Location header and no 403 retry is in progress.
\<close>

theorem retry_403_behaviour:
  "(requestPreHook w = None \<and> requestPostHook w = None \<and>
    (\<forall>n c. \<exists>r. transport w n c = Inr r \<and> status r = 403 \<and> isChallengeRequest r = Inr False) \<and>
    currentConcurrentRequests st < maxConcurrentRequests st \<and>
    0 \<le> currentConcurrentRequests st \<and>
    solveDepthCnt st < solveDepth st \<and>
    autoRefreshOn403 st \<and> max403Retries st = 2 \<and> retryCount403 st = 0 \<and>
    session_fresh w st \<and> url_parse w u = Some parsedUrl
    \<longrightarrow> (\<exists>resp st'.
           transport w (length (calls st)) (Dispatch meth u (pre_config w meth u cfg st)) = Inr resp \<and>
           request (Suc (Suc n)) w meth u cfg st = Some (Inr resp, st') \<and>
           probes st' = Suc (probes st) \<and> dispatches st' = Suc (dispatches st) \<and>
           retryCount403 st' = 1 \<and>
           currentConcurrentRequests st' = currentConcurrentRequests st)) \<and>
   (solveDepthCnt s < solveDepth s \<and>
    (disableCloudflareV1 s \<or> isChallengeRequest r = Inr False) \<and>
    \<not> (status r = 403 \<and> autoRefreshOn403 s)
    \<longrightarrow> (\<exists>s'. handleCloudflareChallenges w self r m v c s = Some (Inr r, s') \<and>
             retryCount403 s' =
               (if status r = 200 \<and> \<not> header_truthy (headers r ''location'') \<and> \<not> in403RetryFlag s
                then 0 else retryCount403 s)))"
  using all_403_one_refresh [of w st u parsedUrl meth cfg n]
    classification_reset_rule [of s r w self m v c]
  by blast

theorem retry_403_behaviour_witness:
  "map_option probes
     (state_of (request 2 (still_world (always resp_forbidden)) (Some ''GET'') sample_url no_config
                  (new_CloudScraper (still_world (always resp_forbidden)) two_retries)))
     = Some 1 \<and>
   map_option retryCount403
     (state_of (request 2 (still_world (always resp_forbidden)) (Some ''GET'') sample_url no_config
                  (new_CloudScraper (still_world (always resp_forbidden)) two_retries)))
     = Some 1 \<and>
   map_option retryCount403
     (state_of (handleCloudflareChallenges (still_world (always resp_forbidden)) echo_request
                  (redirect_response ''/next'') (Some ''GET'') sample_url no_config
                  ((new_CloudScraper (still_world (always resp_forbidden)) two_retries)
                     \<lparr>retryCount403 := 1\<rparr>)))
     = Some 1"
proof -
  let ?w = "still_world (always resp_forbidden)"
  let ?st = "new_CloudScraper ?w two_retries"
  have nc: "isChallengeRequest resp_forbidden = Inr False" by code_simp
  have nc2: "isChallengeRequest (redirect_response ''/next'') = Inr False" by code_simp
  have h: "requestPreHook ?w = None \<and> requestPostHook ?w = None \<and>
    (\<forall>n c. \<exists>r. transport ?w n c = Inr r \<and> status r = 403 \<and> isChallengeRequest r = Inr False) \<and>
    currentConcurrentRequests ?st < maxConcurrentRequests ?st \<and>
    0 \<le> currentConcurrentRequests ?st \<and>
    solveDepthCnt ?st < solveDepth ?st \<and>
    autoRefreshOn403 ?st \<and> max403Retries ?st = 2 \<and> retryCount403 ?st = 0 \<and>
    session_fresh ?w ?st \<and>
    url_parse ?w sample_url
      = Some \<lparr>protocol = ''https:'', hostname = ''example.com'', href = sample_url\<rparr>"
    using nc
    by (simp add: still_world_def always_def resp_forbidden_def new_CloudScraper_def
          two_retries_def default_options_def num_or_def session_fresh_def
          applyRequestThrottling_def now_def shouldRefreshSession_def example_url_def
          sample_url_def)
  have p0: "probes ?st = 0" by (simp add: probes_def new_CloudScraper_def)
  let ?s = "?st\<lparr>retryCount403 := 1\<rparr>"
  have h2: "solveDepthCnt ?s < solveDepth ?s \<and>
    (disableCloudflareV1 ?s \<or> isChallengeRequest (redirect_response ''/next'') = Inr False) \<and>
    \<not> (status (redirect_response ''/next'') = 403 \<and> autoRefreshOn403 ?s)"
    using nc2
    by (simp add: new_CloudScraper_def two_retries_def default_options_def num_or_def
          redirect_response_def)
  note inst = retry_403_behaviour
    [where w = "?w" and st = "?st" and u = sample_url and meth = "Some ''GET''"
       and cfg = no_config and n = 0 and s = "?s" and r = "redirect_response ''/next''"
       and self = echo_request and m = "Some ''GET''" and v = sample_url and c = no_config
       and parsedUrl = "\<lparr>protocol = ''https:'', hostname = ''example.com'', href = sample_url\<rparr>"]
  from mp [OF conjunct1 [OF inst] h] obtain resp st' where
    q: "request (Suc (Suc 0)) ?w (Some ''GET'') sample_url no_config ?st = Some (Inr resp, st')"
    and q1: "probes st' = Suc (probes ?st)" and q2: "retryCount403 st' = 1"
    by blast
  have two: "(2::nat) = Suc (Suc 0)" by simp
  from q q1 q2 p0 have a: "map_option probes
       (state_of (request 2 ?w (Some ''GET'') sample_url no_config ?st)) = Some 1"
    and b: "map_option retryCount403
       (state_of (request 2 ?w (Some ''GET'') sample_url no_config ?st)) = Some 1"
    unfolding two by (simp_all add: state_of_def del: request.simps)
  from mp [OF conjunct2 [OF inst] h2] obtain s' where
    "handleCloudflareChallenges ?w echo_request (redirect_response ''/next'') (Some ''GET'')
       sample_url no_config ?s = Some (Inr (redirect_response ''/next''), s')"
    and "retryCount403 s' =
           (if status (redirect_response ''/next'') = 200
               \<and> \<not> header_truthy (headers (redirect_response ''/next'') ''location'')
               \<and> \<not> in403RetryFlag ?s
            then 0 else retryCount403 ?s)"
    by blast
  then have c: "map_option retryCount403
       (state_of (handleCloudflareChallenges ?w echo_request (redirect_response ''/next'')
                    (Some ''GET'') sample_url no_config ?s)) = Some 1"
    by (simp add: state_of_def redirect_response_def)
  from a b c show ?thesis by simp
qed

text \<open>
  C4 does not hold of the code. Two inputs: a client with two slots whose first response is
  a legacy JS challenge and whose resubmission is answered with a plain page, and a client
  with default options and a post-hook that returns a new response. Each request returns a
  response, and the in-flight counter, 0 before the call, is 1 after it.
\<close>

theorem request_leaks_slot:
  "currentConcurrentRequests (new_CloudScraper (still_world challenge_once) (with_slots 2)) = 0 \<and>
   map_option status
     (value_of (request 3 (still_world challenge_once) (Some ''GET'') sample_url no_config
                  (new_CloudScraper (still_world challenge_once) (with_slots 2))))
     = Some 200 \<and>
   map_option currentConcurrentRequests
     (state_of (request 3 (still_world challenge_once) (Some ''GET'') sample_url no_config
                  (new_CloudScraper (still_world challenge_once) (with_slots 2))))
     = Some 1 \<and>
   currentConcurrentRequests (new_CloudScraper hook_world default_options) = 0 \<and>
   map_option currentConcurrentRequests
     (state_of (request 2 hook_world (Some ''GET'') sample_url no_config
                  (new_CloudScraper hook_world default_options)))
     = Some 1"
  by code_simp


end
